theory Spec2Isabelle
  imports Complex_Main "HOL-Library.Char_ord" "HOL-Library.List_Lexorder"
begin

section \<open>A small model of the tables the transform works on\<close>

text \<open>
  The transform of \<^verbatim>\<open>TL.py\<close> works on pandas data frames. A cell is a missing value
  (NaN, None and NaT alike: \<^verbatim>\<open>pd.isna\<close> is true of it), a text, an integer or a parsed
  timestamp (nanoseconds since 1970-01-01 00:00). A series is a list of cells; a data
  frame is the list of its named columns, in column order.
\<close>

datatype cell = NA | Str string | Num int | Ts int

type_synonym series = "cell list"

type_synonym dataframe = "(string \<times> series) list"

text \<open>Every exception the transform can raise is a value.\<close>

datatype error = KeyError string | TypeError | ValueError | IndexError

definition bindE :: "error + 'a \<Rightarrow> ('a \<Rightarrow> error + 'b) \<Rightarrow> error + 'b" where
  "bindE m f = (case m of Inl e \<Rightarrow> Inl e | Inr x \<Rightarrow> f x)"

fun mapE :: "('a \<Rightarrow> error + 'b) \<Rightarrow> 'a list \<Rightarrow> error + 'b list" where
  "mapE f [] = Inr []"
| "mapE f (x # xs) = bindE (f x) (\<lambda>y. bindE (mapE f xs) (\<lambda>ys. Inr (y # ys)))"

text \<open>\<^verbatim>\<open>df[c]\<close>: the column named \<open>c\<close>, or KeyError.\<close>

definition getcol :: "dataframe \<Rightarrow> string \<Rightarrow> error + series" where
  "getcol df c = (case map_of df c of None \<Rightarrow> Inl (KeyError c) | Some s \<Rightarrow> Inr s)"

text \<open>The number of rows of a frame.\<close>

definition nrows :: "dataframe \<Rightarrow> nat" where
  "nrows df = (case df of [] \<Rightarrow> 0 | (c, s) # rest \<Rightarrow> length s)"

text \<open>\<^verbatim>\<open>df[c] = s\<close>: replaces the column where it stands, or appends a new one.\<close>

fun setcol :: "dataframe \<Rightarrow> string \<Rightarrow> series \<Rightarrow> dataframe" where
  "setcol [] c s = [(c, s)]"
| "setcol ((c', s') # df) c s = (if c' = c then (c, s) # df else (c', s') # setcol df c s)"

section \<open>The similarity scorer\<close>

text \<open>
  \<^verbatim>\<open>fuzz.token_set_ratio\<close> of the rapidfuzz library, which \<^verbatim>\<open>fuzzy_match\<close> passes to
  \<^verbatim>\<open>process.extractOne\<close> as its scorer. Characters are code points below 256; the
  library's floating point score is modelled by its exact value. On such a text the
  library splits at the white space of its one byte characters: the code points 9 to 13,
  28 to 31 and 32 (not at 133 and 160).
\<close>

definition is_space :: "char \<Rightarrow> bool" where
  "is_space c = (of_char c \<in> {9, 10, 11, 12, 13, 28, 29, 30, 31, 32 :: nat})"

text \<open>The tokens of a text: the maximal runs of characters that are not white space.\<close>

fun split_acc :: "string \<Rightarrow> string \<Rightarrow> string list" where
  "split_acc cur [] = (if cur = [] then [] else [rev cur])"
| "split_acc cur (c # cs) =
     (if is_space c then (if cur = [] then split_acc [] cs else rev cur # split_acc [] cs)
      else split_acc (c # cur) cs)"

definition split_sequence :: "string \<Rightarrow> string list" where
  "split_sequence s = split_acc [] s"

text \<open>\<^verbatim>\<open>" ".join(tokens)\<close>.\<close>

fun join_splitted_sequence :: "string list \<Rightarrow> string" where
  "join_splitted_sequence [] = []"
| "join_splitted_sequence [t] = t"
| "join_splitted_sequence (t # u # ts) = t @ CHR '' '' # join_splitted_sequence (u # ts)"

text \<open>The length of a longest common subsequence, and the insertion/deletion distance.\<close>

fun lcs_length :: "'a list \<Rightarrow> 'a list \<Rightarrow> nat" where
  "lcs_length [] ys = 0"
| "lcs_length xs [] = 0"
| "lcs_length (x # xs) (y # ys) =
     (if x = y then Suc (lcs_length xs ys)
      else max (lcs_length xs (y # ys)) (lcs_length (x # xs) ys))"

definition indel_distance :: "'a list \<Rightarrow> 'a list \<Rightarrow> nat" where
  "indel_distance xs ys = length xs + length ys - 2 * lcs_length xs ys"

definition norm_distance :: "nat \<Rightarrow> nat \<Rightarrow> real" where
  "norm_distance distance lensum =
     (if lensum = 0 then 100 else 100 - 100 * real distance / real lensum)"

definition token_set_ratio :: "string \<Rightarrow> string \<Rightarrow> real" where
  "token_set_ratio s1 s2 =
     (let tokens_a = remdups (split_sequence s1);
          tokens_b = remdups (split_sequence s2)
      in if tokens_a = [] \<or> tokens_b = [] then 0
         else
           let intersect = filter (\<lambda>t. t \<in> set tokens_b) tokens_a;
               diff_ab = filter (\<lambda>t. t \<notin> set tokens_b) tokens_a;
               diff_ba = filter (\<lambda>t. t \<notin> set tokens_a) tokens_b
           in if intersect \<noteq> [] \<and> (diff_ab = [] \<or> diff_ba = []) then 100
              else
                let diff_ab_joined = join_splitted_sequence (sort diff_ab);
                    diff_ba_joined = join_splitted_sequence (sort diff_ba);
                    ab_len = length diff_ab_joined;
                    ba_len = length diff_ba_joined;
                    sect_len = length (join_splitted_sequence intersect);
                    sect_ab_len = sect_len + (if sect_len \<noteq> 0 then 1 else 0) + ab_len;
                    sect_ba_len = sect_len + (if sect_len \<noteq> 0 then 1 else 0) + ba_len;
                    distance = indel_distance diff_ab_joined diff_ba_joined;
                    result = norm_distance distance (sect_ab_len + sect_ba_len)
                in if sect_len = 0 then result
                   else
                     let sect_ab_dist = (if sect_len \<noteq> 0 then 1 else 0) + ab_len;
                         sect_ab_ratio = norm_distance sect_ab_dist (sect_len + sect_ab_len);
                         sect_ba_dist = (if sect_len \<noteq> 0 then 1 else 0) + ba_len;
                         sect_ba_ratio = norm_distance sect_ba_dist (sect_len + sect_ba_len)
                     in max result (max sect_ab_ratio sect_ba_ratio))"

section \<open>The fuzzy entity resolver\<close>

text \<open>
  \<^verbatim>\<open>process.extractOne(query, choices, scorer=...)\<close>: the loop over the choices. A missing
  choice is skipped, a choice that is not a text is a TypeError of the scorer; a choice
  replaces the best one so far only with a strictly higher score, and the loop stops at
  the first choice with the optimal score 100. The result is the choice, its score and
  its index, or None when no choice was taken.
\<close>

fun extractOne_loop ::
  "(string \<Rightarrow> string \<Rightarrow> real) \<Rightarrow> string \<Rightarrow> (string \<times> real \<times> nat) option \<Rightarrow> nat \<Rightarrow> series
     \<Rightarrow> error + (string \<times> real \<times> nat) option" where
  "extractOne_loop scorer query result i [] = Inr result"
| "extractOne_loop scorer query result i (NA # choices) =
     extractOne_loop scorer query result (i + 1) choices"
| "extractOne_loop scorer query result i (Str choice # choices) =
     (let score = scorer query choice;
          result' = (if 0 \<le> score \<and> (case result of None \<Rightarrow> True | Some (m, best, k) \<Rightarrow> best < score)
                     then Some (choice, score, i) else result)
      in if score = 100 then Inr result'
         else extractOne_loop scorer query result' (i + 1) choices)"
| "extractOne_loop scorer query result i (c # choices) = Inl TypeError"

definition extractOne ::
  "(string \<Rightarrow> string \<Rightarrow> real) \<Rightarrow> string \<Rightarrow> series \<Rightarrow> error + (string \<times> real \<times> nat) option" where
  "extractOne scorer query choices = extractOne_loop scorer query None 0 choices"

text \<open>
  \<^verbatim>\<open>fuzzy_match(name, choices, threshold=85)\<close>: unpacking the result of \<^verbatim>\<open>extractOne\<close>
  into three names raises TypeError when the result is None.
\<close>

definition fuzzy_match ::
  "(string \<Rightarrow> string \<Rightarrow> real) \<Rightarrow> string \<Rightarrow> series \<Rightarrow> real \<Rightarrow> error + string option" where
  "fuzzy_match scorer name choices threshold =
     bindE (extractOne scorer name choices)
       (\<lambda>r. case r of
               None \<Rightarrow> Inl TypeError
             | Some (m, score, k) \<Rightarrow> Inr (if threshold \<le> score then Some m else None))"

text \<open>
  \<^verbatim>\<open>map_name_to_id(name, dim_df, name_col, id_col)\<close>. The result is the cell the fact
  column gets: the surrogate key, or a missing value. A query that is neither missing nor
  a text is a TypeError of the library.
\<close>

definition first_id :: "series \<Rightarrow> series \<Rightarrow> string \<Rightarrow> error + cell" where
  "first_id names ids matched =
     (case filter (\<lambda>(n, k). n = Str matched) (zip names ids) of
        [] \<Rightarrow> Inl IndexError
      | (n, k) # rest \<Rightarrow> Inr k)"

definition map_name_to_id ::
  "(string \<Rightarrow> string \<Rightarrow> real) \<Rightarrow> cell \<Rightarrow> dataframe \<Rightarrow> string \<Rightarrow> string \<Rightarrow> error + cell" where
  "map_name_to_id scorer name dim_df name_col id_col =
     (case name of
        NA \<Rightarrow> Inr NA
      | Str n \<Rightarrow>
          bindE (getcol dim_df name_col) (\<lambda>choices.
          bindE (fuzzy_match scorer n choices 85) (\<lambda>matched.
            case matched of
              None \<Rightarrow> Inr NA
            | Some m \<Rightarrow>
                if m \<noteq> [] then bindE (getcol dim_df id_col) (\<lambda>ids. first_id choices ids m)
                else Inr NA))
      | _ \<Rightarrow> bindE (getcol dim_df name_col) (\<lambda>choices. Inl TypeError))"

section \<open>Series and frame operations\<close>

text \<open>\<^verbatim>\<open>s.dropna()\<close> and \<^verbatim>\<open>s.unique()\<close> (the distinct cells, in order of first appearance).\<close>

definition dropna :: "series \<Rightarrow> series" where
  "dropna s = filter (\<lambda>c. c \<noteq> NA) s"

definition unique :: "'a list \<Rightarrow> 'a list" where
  "unique xs = rev (remdups (rev xs))"

text \<open>\<^verbatim>\<open>df[c] = v\<close> for a scalar \<open>v\<close>: the column holds \<open>v\<close> in every row.\<close>

definition setcol_scalar :: "dataframe \<Rightarrow> string \<Rightarrow> cell \<Rightarrow> dataframe" where
  "setcol_scalar df c v = setcol df c (replicate (nrows df) v)"

text \<open>
  \<^verbatim>\<open>pd.concat([a, b], ignore_index=True)\<close>: the rows of \<open>a\<close>, then those of \<open>b\<close>, over
  the columns of either; a column one frame lacks is missing in that frame's rows.
\<close>

definition col_or_na :: "dataframe \<Rightarrow> string \<Rightarrow> series" where
  "col_or_na df c = (case map_of df c of None \<Rightarrow> replicate (nrows df) NA | Some s \<Rightarrow> s)"

definition concat_frames :: "dataframe \<Rightarrow> dataframe \<Rightarrow> dataframe" where
  "concat_frames a b =
     map (\<lambda>c. (c, col_or_na a c @ col_or_na b c)) (unique (map fst a @ map fst b))"

text \<open>\<^verbatim>\<open>range(1, n + 1)\<close> as a column of integers.\<close>

definition id_range :: "nat \<Rightarrow> series" where
  "id_range n = map (\<lambda>i. Num (int i + 1)) [0 ..< n]"

text \<open>\<^verbatim>\<open>df[cols]\<close>: the named columns, in the given order.\<close>

definition select_cols :: "dataframe \<Rightarrow> string list \<Rightarrow> error + dataframe" where
  "select_cols df cols = mapE (\<lambda>c. bindE (getcol df c) (\<lambda>s. Inr (c, s))) cols"

text \<open>\<^verbatim>\<open>df.drop_duplicates()\<close>: each distinct row once, at its first position.\<close>

definition drop_duplicates :: "dataframe \<Rightarrow> dataframe" where
  "drop_duplicates df =
     (let kept = unique (map (\<lambda>i. map (\<lambda>(c, s). s ! i) df) [0 ..< nrows df])
      in map (\<lambda>j. (fst (df ! j), map (\<lambda>r. r ! j) kept)) [0 ..< length df])"

text \<open>\<^verbatim>\<open>df.rename(columns={old: new})\<close>.\<close>

definition rename_col :: "dataframe \<Rightarrow> string \<Rightarrow> string \<Rightarrow> dataframe" where
  "rename_col df old new = map (\<lambda>(c, s). (if c = old then new else c, s)) df"

section \<open>Dates\<close>

text \<open>
  \<^verbatim>\<open>pd.to_datetime(s, errors='coerce')\<close>. The parser of a text is a parameter of the
  model. A text that does not parse, and a value outside the range of a 64 bit
  nanosecond timestamp, become missing (NaT).
\<close>

definition in_bounds :: "int \<Rightarrow> bool" where
  "in_bounds ns = (- 9223372036854775807 \<le> ns \<and> ns \<le> 9223372036854775807)"

definition coerce :: "int \<Rightarrow> cell" where
  "coerce ns = (if in_bounds ns then Ts ns else NA)"

fun to_datetime_cell :: "(string \<Rightarrow> int option) \<Rightarrow> cell \<Rightarrow> cell" where
  "to_datetime_cell parse NA = NA"
| "to_datetime_cell parse (Str t) = (case parse t of None \<Rightarrow> NA | Some ns \<Rightarrow> coerce ns)"
| "to_datetime_cell parse (Num n) = coerce n"
| "to_datetime_cell parse (Ts ns) = coerce ns"

definition to_datetime :: "(string \<Rightarrow> int option) \<Rightarrow> series \<Rightarrow> series" where
  "to_datetime parse s = map (to_datetime_cell parse) s"

text \<open>\<^verbatim>\<open>s.min()\<close> and \<^verbatim>\<open>s.max()\<close> of a column of timestamps: missing values are skipped.\<close>

definition timestamps :: "series \<Rightarrow> int list" where
  "timestamps s = concat (map (\<lambda>c. case c of Ts t \<Rightarrow> [t] | _ \<Rightarrow> []) s)"

definition series_min :: "series \<Rightarrow> cell" where
  "series_min s = (case timestamps s of [] \<Rightarrow> NA | t # ts \<Rightarrow> Ts (fold min ts t))"

definition series_max :: "series \<Rightarrow> cell" where
  "series_max s = (case timestamps s of [] \<Rightarrow> NA | t # ts \<Rightarrow> Ts (fold max ts t))"

text \<open>
  Python's \<^verbatim>\<open>min(a, b)\<close> and \<^verbatim>\<open>max(a, b)\<close>: the first argument stays unless the second
  compares strictly below (above) it, and every comparison with NaT is false.
\<close>

fun lt_cell :: "cell \<Rightarrow> cell \<Rightarrow> bool" where
  "lt_cell (Ts a) (Ts b) = (a < b)"
| "lt_cell a b = False"

definition py_min :: "cell \<Rightarrow> cell \<Rightarrow> cell" where
  "py_min a b = (if lt_cell b a then b else a)"

definition py_max :: "cell \<Rightarrow> cell \<Rightarrow> cell" where
  "py_max a b = (if lt_cell a b then b else a)"

text \<open>
  \<^verbatim>\<open>pd.date_range(start=a, end=b)\<close> with the default daily frequency: \<open>a\<close>, \<open>a\<close> plus one
  day, and so on while not after \<open>b\<close>. NaT at either side is a ValueError.
\<close>

definition day_ns :: int where
  "day_ns = 86400000000000"

fun date_range :: "cell \<Rightarrow> cell \<Rightarrow> error + int list" where
  "date_range (Ts a) (Ts b) =
     Inr (if b < a then [] else map (\<lambda>i. a + int i * day_ns) [0 ..< nat ((b - a) div day_ns) + 1])"
| "date_range a b = Inl ValueError"

text \<open>
  The proleptic Gregorian calendar: year, month and day of a day number (days since
  1970-01-01), and the day number of a date.
\<close>

definition civil_from_days :: "int \<Rightarrow> int \<times> int \<times> int" where
  "civil_from_days z0 =
     (let z = z0 + 719468;
          era = z div 146097;
          doe = z - era * 146097;
          yoe = (doe - doe div 1460 + doe div 36524 - doe div 146096) div 365;
          y = yoe + era * 400;
          doy = doe - (365 * yoe + yoe div 4 - yoe div 100);
          mp = (5 * doy + 2) div 153;
          d = doy - (153 * mp + 2) div 5 + 1;
          m = (if mp < 10 then mp + 3 else mp - 9)
      in (if m \<le> 2 then y + 1 else y, m, d))"

definition days_from_civil :: "int \<Rightarrow> int \<Rightarrow> int \<Rightarrow> int" where
  "days_from_civil y0 m d =
     (let y = (if m \<le> 2 then y0 - 1 else y0);
          era = y div 400;
          yoe = y - era * 400;
          doy = (153 * (if m > 2 then m - 3 else m + 9) + 2) div 5 + d - 1;
          doe = yoe * 365 + yoe div 4 - yoe div 100 + doy
      in era * 146097 + doe - 719468)"

definition day_number :: "int \<Rightarrow> int" where
  "day_number ns = ns div day_ns"

definition year_of :: "int \<Rightarrow> int" where
  "year_of ns = fst (civil_from_days (day_number ns))"

definition month_of :: "int \<Rightarrow> int" where
  "month_of ns = fst (snd (civil_from_days (day_number ns)))"

definition day_of :: "int \<Rightarrow> int" where
  "day_of ns = snd (snd (civil_from_days (day_number ns)))"

definition quarter_of :: "int \<Rightarrow> int" where
  "quarter_of ns = (month_of ns - 1) div 3 + 1"

text \<open>
  The ISO week: the week of the year of the Thursday of the timestamp's week (weeks
  start on Monday; 1970-01-01 was a Thursday).
\<close>

definition week_of :: "int \<Rightarrow> int" where
  "week_of ns =
     (let z = day_number ns;
          thursday = z - (z + 3) mod 7 + 3;
          iso_year = fst (civil_from_days thursday)
      in (thursday - days_from_civil iso_year 1 1) div 7 + 1)"

text \<open>
  \<^verbatim>\<open>strftime('%Y%m%d')\<close> and \<^verbatim>\<open>astype(int)\<close>: the decimal digits of year, month and day,
  the year padded to four and the others to two digits, read back as a number.
\<close>

fun decimal :: "nat \<Rightarrow> string" where
  "decimal n = (if n < 10 then [char_of (48 + n)] else decimal (n div 10) @ [char_of (48 + n mod 10)])"

declare decimal.simps [simp del]

definition zero_pad :: "nat \<Rightarrow> nat \<Rightarrow> string" where
  "zero_pad w n = replicate (w - length (decimal n)) CHR ''0'' @ decimal n"

definition strftime_Ymd :: "int \<Rightarrow> string" where
  "strftime_Ymd ns =
     zero_pad 4 (nat (year_of ns)) @ zero_pad 2 (nat (month_of ns)) @ zero_pad 2 (nat (day_of ns))"

definition digit_step :: "char \<Rightarrow> int \<Rightarrow> int" where
  "digit_step c n = 10 * n + (int (of_char c) - 48)"

definition int_of_text :: "string \<Rightarrow> int" where
  "int_of_text s = fold digit_step s 0"

text \<open>
  \<^verbatim>\<open>s.dt.strftime('%Y%m%d').astype(int)\<close> on a column of timestamps: a missing date
  formats to NaN, and NaN cannot be converted to an integer (ValueError).
\<close>

fun date_key_cell :: "cell \<Rightarrow> error + cell" where
  "date_key_cell (Ts ns) = Inr (Num (int_of_text (strftime_Ymd ns)))"
| "date_key_cell c = Inl ValueError"

section \<open>The transform\<close>

text \<open>The five raw tables \<^verbatim>\<open>transform_data\<close> receives, and the eight tables it returns.\<close>

record inputs =
  gps_match :: dataframe
  gps_training :: dataframe
  wyscout_outfield :: dataframe
  wyscout_goalkeeper :: dataframe
  wyscout_matches :: dataframe

record outputs =
  dim_date :: dataframe
  dim_team :: dataframe
  dim_player :: dataframe
  dim_competition :: dataframe
  dim_match :: dataframe
  fact_player_gps :: dataframe
  fact_player_wyscout :: dataframe
  fact_wyscout_match :: dataframe

text \<open>\<^verbatim>\<open>df['date'] = pd.to_datetime(df['date'], errors='coerce')\<close> (lines 47 and 48).\<close>

definition coerce_date :: "(string \<Rightarrow> int option) \<Rightarrow> dataframe \<Rightarrow> error + dataframe" where
  "coerce_date parse df =
     bindE (getcol df ''date'') (\<lambda>s. Inr (setcol df ''date'' (to_datetime parse s)))"

text \<open>
  The date dimension (lines 50 to 61), from the parsed date columns of the GPS fact table
  and of the match table.
\<close>

definition make_dim_date :: "series \<Rightarrow> series \<Rightarrow> error + dataframe" where
  "make_dim_date gps_dates match_dates =
     (let date_min = py_min (series_min gps_dates) (series_min match_dates);
          date_max = py_max (series_max gps_dates) (series_max match_dates)
      in bindE (date_range date_min date_max) (\<lambda>r.
           Inr [(''date'', map Ts r),
                (''date_key'', map (\<lambda>t. Num (int_of_text (strftime_Ymd t))) r),
                (''year'', map (\<lambda>t. Num (year_of t)) r),
                (''month'', map (\<lambda>t. Num (month_of t)) r),
                (''day'', map (\<lambda>t. Num (day_of t)) r),
                (''week'', map (\<lambda>t. Num (week_of t)) r),
                (''quarter'', map (\<lambda>t. Num (quarter_of t)) r)]))"

text \<open>
  The team and the player dimension (lines 63 to 67 and 69 to 73): the distinct names of
  the GPS column and of the two Wyscout columns go through a Python set, whose iteration
  order \<open>set_order\<close> is a parameter of the model, and are numbered from 1.
\<close>

definition make_dim ::
  "(series \<Rightarrow> series) \<Rightarrow> series \<Rightarrow> series \<Rightarrow> series \<Rightarrow> string \<Rightarrow> string \<Rightarrow> dataframe" where
  "make_dim set_order gps outfield goalkeeper name_col id_col =
     (let names_gps = unique (dropna gps);
          names_wyscout = unique (dropna (outfield @ goalkeeper));
          all_names = set_order (names_gps @ names_wyscout)
      in [(name_col, all_names), (id_col, id_range (length all_names))])"

text \<open>The competition dimension (lines 75 and 76).\<close>

definition make_dim_competition :: "series \<Rightarrow> dataframe" where
  "make_dim_competition competition =
     (let names = unique (dropna competition)
      in [(''competition'', names), (''competition_id'', id_range (length names))])"

text \<open>
  \<^verbatim>\<open>df[target] = df[col].apply(lambda x: map_name_to_id(x, dim_df, name_col, id_col))\<close>
  (lines 90 to 97).
\<close>

definition resolve_column ::
  "(string \<Rightarrow> string \<Rightarrow> real) \<Rightarrow> dataframe \<Rightarrow> string \<Rightarrow> dataframe \<Rightarrow> string \<Rightarrow> string \<Rightarrow> string
     \<Rightarrow> error + dataframe" where
  "resolve_column scorer df col dim_df name_col id_col target =
     bindE (getcol df col) (\<lambda>s.
     bindE (mapE (\<lambda>x. map_name_to_id scorer x dim_df name_col id_col) s) (\<lambda>ids.
       Inr (setcol df target ids)))"

text \<open>The match dimension (lines 99 to 101).\<close>

definition make_dim_match :: "dataframe \<Rightarrow> error + dataframe" where
  "make_dim_match matches =
     bindE (select_cols matches [''match'', ''date'', ''team_id'', ''competition_id'']) (\<lambda>sel.
     (let dm = rename_col (drop_duplicates sel) ''match'' ''match_id''
      in bindE (getcol dm ''date'') (\<lambda>dates.
         bindE (mapE date_key_cell dates) (\<lambda>keys.
           Inr (setcol dm ''date_key'' keys)))))"

text \<open>
  \<^verbatim>\<open>transform_data\<close>. The source fixes the scorer to \<^verbatim>\<open>fuzz.token_set_ratio\<close>; the model
  takes it as \<open>scorer\<close>. Assignments to a column of an argument change the caller's
  table, so the result holds the eight returned tables and the five argument tables as
  the call leaves them.
\<close>

definition transform_data ::
  "(string \<Rightarrow> int option) \<Rightarrow> (series \<Rightarrow> series) \<Rightarrow> (string \<Rightarrow> string \<Rightarrow> real) \<Rightarrow> inputs
     \<Rightarrow> error + outputs \<times> inputs" where
  "transform_data parse set_order scorer inp =
     (let gps_match1 = setcol_scalar (gps_match inp) ''session_type'' (Str ''match'');
          gps_training1 = setcol_scalar (gps_training inp) ''session_type'' (Str ''training'')
      in
      bindE (coerce_date parse (concat_frames gps_match1 gps_training1)) (\<lambda>gps0.
      bindE (coerce_date parse (wyscout_matches inp)) (\<lambda>matches0.
      bindE (coerce_date parse (wyscout_outfield inp)) (\<lambda>outfield0.
      bindE (coerce_date parse (wyscout_goalkeeper inp)) (\<lambda>goalkeeper0.
      bindE (getcol gps0 ''date'') (\<lambda>gps_dates.
      bindE (getcol matches0 ''date'') (\<lambda>match_dates.
      bindE (make_dim_date gps_dates match_dates) (\<lambda>dim_date1.
      bindE (getcol gps0 ''team_name'') (\<lambda>gps_team.
      bindE (getcol outfield0 ''team_name'') (\<lambda>outfield_team.
      bindE (getcol goalkeeper0 ''team_name'') (\<lambda>goalkeeper_team.
      (let dim_team1 = make_dim set_order gps_team outfield_team goalkeeper_team
                         ''team_name_std'' ''team_id''
       in
      bindE (getcol gps0 ''name'') (\<lambda>gps_name.
      bindE (getcol outfield0 ''player'') (\<lambda>outfield_player.
      bindE (getcol goalkeeper0 ''player'') (\<lambda>goalkeeper_player.
      (let dim_player1 = make_dim set_order gps_name outfield_player goalkeeper_player
                           ''player_name_std'' ''player_id''
       in
      bindE (getcol matches0 ''competition'') (\<lambda>competition.
      (let dim_competition1 = make_dim_competition competition
       in
      bindE (resolve_column scorer gps0 ''team_name'' dim_team1
               ''team_name_std'' ''team_id'' ''team_id'') (\<lambda>gps1.
      bindE (resolve_column scorer gps1 ''name'' dim_player1
               ''player_name_std'' ''player_id'' ''player_id'') (\<lambda>gps2.
      bindE (resolve_column scorer outfield0 ''team_name'' dim_team1
               ''team_name_std'' ''team_id'' ''team_id'') (\<lambda>outfield1.
      bindE (resolve_column scorer goalkeeper0 ''team_name'' dim_team1
               ''team_name_std'' ''team_id'' ''team_id'') (\<lambda>goalkeeper1.
      bindE (resolve_column scorer outfield1 ''player'' dim_player1
               ''player_name_std'' ''player_id'' ''player_id'') (\<lambda>outfield2.
      bindE (resolve_column scorer goalkeeper1 ''player'' dim_player1
               ''player_name_std'' ''player_id'' ''player_id'') (\<lambda>goalkeeper2.
      bindE (resolve_column scorer matches0 ''team_name'' dim_team1
               ''team_name_std'' ''team_id'' ''team_id'') (\<lambda>matches1.
      bindE (resolve_column scorer matches1 ''competition'' dim_competition1
               ''competition'' ''competition_id'' ''competition_id'') (\<lambda>matches2.
      bindE (make_dim_match matches2) (\<lambda>dim_match1.
      (let goalkeeper3 = setcol_scalar goalkeeper2 ''player_type'' (Str ''goalkeeper'');
           outfield3 = setcol_scalar outfield2 ''player_type'' (Str ''outfield'')
       in
       Inr (\<lparr>dim_date = dim_date1, dim_team = dim_team1, dim_player = dim_player1,
             dim_competition = dim_competition1, dim_match = dim_match1,
             fact_player_gps = gps2,
             fact_player_wyscout = concat_frames goalkeeper3 outfield3,
             fact_wyscout_match = matches2\<rparr>,
            \<lparr>gps_match = gps_match1, gps_training = gps_training1,
             wyscout_outfield = outfield3, wyscout_goalkeeper = goalkeeper3,
             wyscout_matches = matches2\<rparr>)))))))))))))))))))))))))))))"

section \<open>The resolver in the words of the specification\<close>

text \<open>
  Section 4.2 of the specification: a null query gives null; otherwise the query is
  scored against every candidate, the candidate with the maximum score is selected, the
  first one in the given order on a tie, and it is returned only if its score is at least
  the threshold.
\<close>

definition spec_resolve ::
  "(string \<Rightarrow> string \<Rightarrow> real) \<Rightarrow> string option \<Rightarrow> string list \<Rightarrow> real \<Rightarrow> string option" where
  "spec_resolve score query candidates threshold =
     (case query of
        None \<Rightarrow> None
      | Some q \<Rightarrow>
          (let best = Max (set (map (score q) candidates))
           in if threshold \<le> best then find (\<lambda>c. score q c = best) candidates else None))"

text \<open>The first candidate with the maximum score, and that score.\<close>

definition winner :: "(string \<Rightarrow> real) \<Rightarrow> string list \<Rightarrow> (string \<times> real) option" where
  "winner f cs = (let best = Max (set (map f cs)) in map_option (\<lambda>c. (c, best)) (find (\<lambda>c. f c = best) cs))"

text \<open>The result of \<^verbatim>\<open>extractOne\<close> without the index, which \<^verbatim>\<open>fuzzy_match\<close> discards.\<close>

definition strip_index :: "error + (string \<times> real \<times> nat) option \<Rightarrow> error + (string \<times> real) option" where
  "strip_index r = map_sum id (map_option (\<lambda>(m, s, k). (m, s))) r"

section \<open>Example data\<close>

text \<open>
  An instance of the date parser for the examples: a text of the form YYYY-MM-DD is
  midnight of that day, every other text does not parse.
\<close>

definition digits_ok :: "string \<Rightarrow> bool" where
  "digits_ok s = (s \<noteq> [] \<and> list_all (\<lambda>c. CHR ''0'' \<le> c \<and> c \<le> CHR ''9'') s)"

definition iso_date :: "string \<Rightarrow> int option" where
  "iso_date s =
     (if length s = 10 \<and> s ! 4 = CHR ''-'' \<and> s ! 7 = CHR ''-'' \<and> digits_ok (take 4 s)
         \<and> digits_ok (take 2 (drop 5 s)) \<and> digits_ok (drop 8 s)
      then (let y = int_of_text (take 4 s);
                m = int_of_text (take 2 (drop 5 s));
                d = int_of_text (drop 8 s)
            in if 1 \<le> m \<and> m \<le> 12 \<and> 1 \<le> d \<and> d \<le> 31 then Some (days_from_civil y m d * day_ns)
               else None)
      else None)"

text \<open>
  Tables in which only the match table names a team: the GPS and the player tables have
  rows, but no team name.
\<close>

definition no_team_example :: inputs where
  "no_team_example =
     \<lparr>gps_match = [(''name'', [Str ''Ann Lee'']), (''team_name'', [NA]),
                   (''date'', [Str ''2024-01-01''])],
      gps_training = [(''name'', []), (''team_name'', []), (''date'', [])],
      wyscout_outfield = [(''player'', [Str ''Ann Lee'']), (''team_name'', [NA]),
                          (''date'', [Str ''2024-01-02''])],
      wyscout_goalkeeper = [(''player'', []), (''team_name'', []), (''date'', [])],
      wyscout_matches = [(''match'', [Str ''m1'']), (''team_name'', [Str ''FC Alpha'']),
                         (''competition'', [Str ''Cup'']), (''date'', [Str ''2024-01-02''])]\<rparr>"

text \<open>
  A run of the transform: a GPS training row with a date that does not parse, an outfield
  row dated before every GPS and match date, and two spellings of one team.
\<close>

definition example_inputs :: inputs where
  "example_inputs =
     \<lparr>gps_match = [(''name'', [Str ''Ann Lee'']), (''team_name'', [Str ''FC Alpha'']),
                   (''date'', [Str ''2024-01-02''])],
      gps_training = [(''name'', [Str ''Lee Ann'']), (''team_name'', [NA]),
                      (''date'', [Str ''soon''])],
      wyscout_outfield = [(''player'', [Str ''A. Lee'']), (''team_name'', [Str ''Alpha FC'']),
                          (''date'', [Str ''2024-01-01''])],
      wyscout_goalkeeper = [(''player'', []), (''team_name'', []), (''date'', [])],
      wyscout_matches = [(''match'', [Str ''m1'', Str ''m1'']),
                         (''team_name'', [Str ''Alpha'', Str ''Alpha'']),
                         (''competition'', [Str ''Cup'', Str ''Cup'']),
                         (''date'', [Str ''2024-01-03'', Str ''2024-01-03''])]\<rparr>"

text \<open>What the run returns, and the five argument tables after it.\<close>

definition example_outputs :: outputs where
  "example_outputs =
     \<lparr>dim_date =
         [(''date'', [Ts 1704153600000000000, Ts 1704240000000000000]),
          (''date_key'', [Num 20240102, Num 20240103]),
          (''year'', [Num 2024, Num 2024]), (''month'', [Num 1, Num 1]),
          (''day'', [Num 2, Num 3]), (''week'', [Num 1, Num 1]),
          (''quarter'', [Num 1, Num 1])],
      dim_team =
         [(''team_name_std'', [Str ''FC Alpha'', Str ''Alpha FC'']),
          (''team_id'', [Num 1, Num 2])],
      dim_player =
         [(''player_name_std'', [Str ''Ann Lee'', Str ''Lee Ann'', Str ''A. Lee'']),
          (''player_id'', [Num 1, Num 2, Num 3])],
      dim_competition =
         [(''competition'', [Str ''Cup'']), (''competition_id'', [Num 1])],
      dim_match =
         [(''match_id'', [Str ''m1'']), (''date'', [Ts 1704240000000000000]),
          (''team_id'', [Num 1]), (''competition_id'', [Num 1]),
          (''date_key'', [Num 20240103])],
      fact_player_gps =
         [(''name'', [Str ''Ann Lee'', Str ''Lee Ann'']),
          (''team_name'', [Str ''FC Alpha'', NA]),
          (''date'', [Ts 1704153600000000000, NA]),
          (''session_type'', [Str ''match'', Str ''training'']),
          (''team_id'', [Num 1, NA]), (''player_id'', [Num 1, Num 1])],
      fact_player_wyscout =
         [(''player'', [Str ''A. Lee'']), (''team_name'', [Str ''Alpha FC'']),
          (''date'', [Ts 1704067200000000000]), (''team_id'', [Num 1]),
          (''player_id'', [Num 3]), (''player_type'', [Str ''outfield''])],
      fact_wyscout_match =
         [(''match'', [Str ''m1'', Str ''m1'']),
          (''team_name'', [Str ''Alpha'', Str ''Alpha'']),
          (''competition'', [Str ''Cup'', Str ''Cup'']),
          (''date'', [Ts 1704240000000000000, Ts 1704240000000000000]),
          (''team_id'', [Num 1, Num 1]), (''competition_id'', [Num 1, Num 1])]\<rparr>"

definition example_inputs_after :: inputs where
  "example_inputs_after =
     \<lparr>gps_match =
         [(''name'', [Str ''Ann Lee'']), (''team_name'', [Str ''FC Alpha'']),
          (''date'', [Str ''2024-01-02'']), (''session_type'', [Str ''match''])],
      gps_training =
         [(''name'', [Str ''Lee Ann'']), (''team_name'', [NA]),
          (''date'', [Str ''soon'']), (''session_type'', [Str ''training''])],
      wyscout_outfield =
         [(''player'', [Str ''A. Lee'']), (''team_name'', [Str ''Alpha FC'']),
          (''date'', [Ts 1704067200000000000]), (''team_id'', [Num 1]),
          (''player_id'', [Num 3]), (''player_type'', [Str ''outfield''])],
      wyscout_goalkeeper =
         [(''player'', []), (''team_name'', []), (''date'', []),
          (''team_id'', []), (''player_id'', []), (''player_type'', [])],
      wyscout_matches =
         [(''match'', [Str ''m1'', Str ''m1'']),
          (''team_name'', [Str ''Alpha'', Str ''Alpha'']),
          (''competition'', [Str ''Cup'', Str ''Cup'']),
          (''date'', [Ts 1704240000000000000, Ts 1704240000000000000]),
          (''team_id'', [Num 1, Num 1]), (''competition_id'', [Num 1, Num 1])]\<rparr>"

text \<open>The same tables, but the second row of the match table has a date that does not parse.\<close>

definition bad_match_date_example :: inputs where
  "bad_match_date_example =
     example_inputs\<lparr>wyscout_matches :=
        [(''match'', [Str ''m1'', Str ''m1'']),
         (''team_name'', [Str ''Alpha'', Str ''Alpha'']),
         (''competition'', [Str ''Cup'', Str ''Cup'']),
         (''date'', [Str ''2024-01-03'', Str ''soon''])]\<rparr>"


section \<open>The vocabulary of the claims about the transform\<close>

text \<open>The values other than missing ones that a column of a table holds.\<close>

definition observed :: "dataframe \<Rightarrow> string \<Rightarrow> cell set" where
  "observed df c = set (col_or_na df c) - {NA}"

text \<open>
  A canonical table: its names are pairwise distinct, and its keys are as many distinct
  integers, which are exactly the integers from 1 to the number of rows.
\<close>

definition dense_keys :: "dataframe \<Rightarrow> string \<Rightarrow> string \<Rightarrow> bool" where
  "dense_keys df name_col id_col =
     (case map_of df name_col of
        None \<Rightarrow> False
      | Some names \<Rightarrow>
          (case map_of df id_col of
             None \<Rightarrow> False
           | Some ids \<Rightarrow>
               distinct names \<and> length ids = length names \<and> distinct ids \<and>
               set ids = Num ` {1 .. int (length names)}))"

text \<open>
  The number of rows the specification gives the date dimension: one per day from the
  smallest to the largest date observed in any of the three fact tables.
\<close>

definition spec_date_rows :: "outputs \<Rightarrow> nat" where
  "spec_date_rows out =
     (let ds = timestamps (col_or_na (fact_player_gps out) ''date'') @
               timestamps (col_or_na (fact_player_wyscout out) ''date'') @
               timestamps (col_or_na (fact_wyscout_match out) ''date'')
      in nat ((Max (set ds) - Min (set ds)) div day_ns) + 1)"


text \<open>The position of the first element of a list that satisfies a predicate.\<close>

definition first_index :: "('a \<Rightarrow> bool) \<Rightarrow> 'a list \<Rightarrow> nat" where
  "first_index P xs = length (takeWhile (\<lambda>x. \<not> P x) xs)"

text \<open>
  What the transform leaves in an argument table: the date column holds the parsed
  dates of the column before; a key column holds the keys that \<^verbatim>\<open>map_name_to_id\<close> gives
  the names of a column before; a column holds one value in every row.
\<close>

definition date_parsed :: "(string \<Rightarrow> int option) \<Rightarrow> dataframe \<Rightarrow> dataframe \<Rightarrow> bool" where
  "date_parsed parse before after =
     (case map_of before ''date'' of
        None \<Rightarrow> False
      | Some d \<Rightarrow> map_of after ''date'' = Some (to_datetime parse d))"

definition keys_added ::
  "(string \<Rightarrow> string \<Rightarrow> real) \<Rightarrow> dataframe \<Rightarrow> string \<Rightarrow> string \<Rightarrow> dataframe \<Rightarrow> string \<Rightarrow> dataframe
     \<Rightarrow> bool" where
  "keys_added scorer dim_df name_col id_col before col after =
     (case map_of before col of
        None \<Rightarrow> False
      | Some s \<Rightarrow>
          (case mapE (\<lambda>x. map_name_to_id scorer x dim_df name_col id_col) s of
             Inl e \<Rightarrow> False
           | Inr ids \<Rightarrow> map_of after id_col = Some ids))"

definition tagged :: "dataframe \<Rightarrow> string \<Rightarrow> cell \<Rightarrow> bool" where
  "tagged df c v = (map_of df c = Some (replicate (nrows df) v))"

section \<open>Properties of the resolver\<close>

lemma bindE_Inr: "bindE (Inr x) f = f x"
  by (simp add: bindE_def)

lemma winner_Cons_ge:
  assumes "\<forall>x\<in>set cs. f x \<le> f c"
  shows "winner f (c # cs) = Some (c, f c)"
proof -
  have "Max (set (map f (c # cs))) = f c"
    using assms by (intro Max_eqI) auto
  then show ?thesis by (simp add: winner_def)
qed

lemma winner_Cons_lt:
  assumes "x \<in> set cs" "f c < f x"
  shows "winner f (c # cs) = winner f cs"
proof -
  have ne: "f ` set cs \<noteq> {}" using assms by auto
  have "f x \<le> Max (f ` set cs)" using assms by simp
  then have lt: "f c < Max (f ` set cs)" using assms(2) by linarith
  have "Max (set (map f (c # cs))) = max (f c) (Max (f ` set cs))"
    using ne by simp
  then have "Max (set (map f (c # cs))) = Max (f ` set cs)" using lt by simp
  then show ?thesis using lt by (simp add: winner_def)
qed

lemma loop_Some:
  assumes "\<forall>c\<in>set cs. 0 \<le> scorer q c \<and> scorer q c \<le> 100" "b < 100"
  shows "strip_index (extractOne_loop scorer q (Some (m, b, k0)) i (map Str cs)) =
           Inr (if \<exists>c\<in>set cs. b < scorer q c then winner (scorer q) cs else Some (m, b))"
  using assms
proof (induction cs arbitrary: m b k0 i)
  case Nil
  then show ?case by (simp add: strip_index_def)
next
  case (Cons c cs)
  have bnd: "\<forall>x\<in>set cs. 0 \<le> scorer q x \<and> scorer q x \<le> 100" "0 \<le> scorer q c" "scorer q c \<le> 100"
    using Cons.prems by auto
  show ?case
  proof (cases "scorer q c = 100")
    case True
    have "winner (scorer q) (c # cs) = Some (c, scorer q c)"
      using bnd True by (intro winner_Cons_ge) auto
    then show ?thesis using True Cons.prems(2)
      by (auto simp: strip_index_def)
  next
    case False
    then have lt: "scorer q c < 100" using bnd by simp
    show ?thesis
    proof (cases "b < scorer q c")
      case True
      have step: "strip_index (extractOne_loop scorer q (Some (m, b, k0)) i (map Str (c # cs))) =
            strip_index (extractOne_loop scorer q (Some (c, scorer q c, i)) (i + 1) (map Str cs))"
        using True False bnd by simp
      show ?thesis
      proof (cases "\<exists>x\<in>set cs. scorer q c < scorer q x")
        case True
        then obtain x where "x \<in> set cs" "scorer q c < scorer q x" by blast
        then have "winner (scorer q) (c # cs) = winner (scorer q) cs"
          by (rule winner_Cons_lt)
        then show ?thesis using step Cons.IH[OF bnd(1) lt] True \<open>b < scorer q c\<close> by auto
      next
        case F2: False
        then have "winner (scorer q) (c # cs) = Some (c, scorer q c)"
          by (intro winner_Cons_ge) (auto simp: not_less)
        then show ?thesis using step Cons.IH[OF bnd(1) lt] F2 \<open>b < scorer q c\<close> by auto
      qed
    next
      case F1: False
      have step: "strip_index (extractOne_loop scorer q (Some (m, b, k0)) i (map Str (c # cs))) =
            strip_index (extractOne_loop scorer q (Some (m, b, k0)) (i + 1) (map Str cs))"
        using F1 False by simp
      show ?thesis
      proof (cases "\<exists>x\<in>set cs. b < scorer q x")
        case True
        then obtain x where x: "x \<in> set cs" "b < scorer q x" by blast
        then have "scorer q c < scorer q x" using F1 by simp
        with x have "winner (scorer q) (c # cs) = winner (scorer q) cs"
          by (intro winner_Cons_lt)
        then show ?thesis using step Cons.IH[OF bnd(1) Cons.prems(2)] True by auto
      next
        case F2: False
        then show ?thesis using step Cons.IH[OF bnd(1) Cons.prems(2)] F1 by auto
      qed
    qed
  qed
qed

lemma extractOne_winner:
  assumes "\<forall>c\<in>set cs. 0 \<le> scorer q c \<and> scorer q c \<le> 100" "cs \<noteq> []"
  shows "strip_index (extractOne scorer q (map Str cs)) = Inr (winner (scorer q) cs)"
proof (cases cs)
  case Nil
  then show ?thesis using assms by simp
next
  case (Cons c cs')
  have bnd: "\<forall>x\<in>set cs'. 0 \<le> scorer q x \<and> scorer q x \<le> 100" "0 \<le> scorer q c" "scorer q c \<le> 100"
    using assms Cons by auto
  show ?thesis
  proof (cases "scorer q c = 100")
    case True
    have "winner (scorer q) (c # cs') = Some (c, scorer q c)"
      using bnd True by (intro winner_Cons_ge) auto
    then show ?thesis using True Cons by (simp add: extractOne_def strip_index_def)
  next
    case False
    then have lt: "scorer q c < 100" using bnd by simp
    have step: "strip_index (extractOne scorer q (map Str cs)) =
          strip_index (extractOne_loop scorer q (Some (c, scorer q c, 0)) 1 (map Str cs'))"
      using False bnd Cons by (simp add: extractOne_def)
    have rest: "strip_index (extractOne_loop scorer q (Some (c, scorer q c, 0)) 1 (map Str cs')) =
          Inr (if \<exists>x\<in>set cs'. scorer q c < scorer q x then winner (scorer q) cs'
               else Some (c, scorer q c))"
      by (rule loop_Some) (use bnd lt in auto)
    show ?thesis
    proof (cases "\<exists>x\<in>set cs'. scorer q c < scorer q x")
      case True
      then obtain x where "x \<in> set cs'" "scorer q c < scorer q x" by blast
      then have "winner (scorer q) (c # cs') = winner (scorer q) cs'"
        by (rule winner_Cons_lt)
      then show ?thesis using step rest True Cons by auto
    next
      case F2: False
      then have "winner (scorer q) (c # cs') = Some (c, scorer q c)"
        by (intro winner_Cons_ge) (auto simp: not_less)
      then show ?thesis using step rest F2 Cons by auto
    qed
  qed
qed

lemma find_max_Some:
  assumes "cs \<noteq> []"
  shows "\<exists>c. find (\<lambda>c. f c = Max (f ` set cs)) cs = Some c"
proof -
  have "Max (f ` set cs) \<in> f ` set cs" using assms by (intro Max_in) auto
  then obtain c where "c \<in> set cs" "f c = Max (f ` set cs)" by auto
  then have "find (\<lambda>c. f c = Max (f ` set cs)) cs \<noteq> None"
    by (auto simp: find_None_iff)
  then show ?thesis by auto
qed

lemma fuzzy_match_spec:
  assumes "\<forall>c\<in>set cs. 0 \<le> scorer q c \<and> scorer q c \<le> 100" "cs \<noteq> []"
  shows "fuzzy_match scorer q (map Str cs) threshold = Inr (spec_resolve scorer (Some q) cs threshold)"
proof -
  have w: "strip_index (extractOne scorer q (map Str cs)) = Inr (winner (scorer q) cs)"
    using assms by (rule extractOne_winner)
  show ?thesis
  proof (cases "extractOne scorer q (map Str cs)")
    case (Inl e)
    then show ?thesis using w by (simp add: strip_index_def)
  next
    case (Inr r)
    obtain c where c: "find (\<lambda>c. scorer q c = Max (scorer q ` set cs)) cs = Some c"
      using find_max_Some[OF assms(2)] by blast
    then have "map_option (\<lambda>(m, s, k). (m, s)) r = Some (c, Max (scorer q ` set cs))"
      using w Inr by (simp add: strip_index_def winner_def)
    then obtain k where "r = Some (c, Max (scorer q ` set cs), k)"
      by (cases r) auto
    then show ?thesis using Inr c
      by (simp add: fuzzy_match_def bindE_def spec_resolve_def)
  qed
qed


lemma norm_distance_le: "norm_distance d l \<le> 100"
  by (simp add: norm_distance_def)

lemma norm_distance_ge:
  assumes "d \<le> l"
  shows "0 \<le> norm_distance d l"
proof (cases "l = 0")
  case True
  then show ?thesis by (simp add: norm_distance_def)
next
  case False
  then show ?thesis using assms by (simp add: norm_distance_def divide_le_eq)
qed

lemma indel_distance_le: "indel_distance xs ys \<le> length xs + length ys"
  by (simp add: indel_distance_def)

lemma token_set_ratio_bounds: "0 \<le> token_set_ratio a b \<and> token_set_ratio a b \<le> 100"
proof -
  have ge: "0 \<le> norm_distance (indel_distance xs ys) l"
    if "length xs + length ys \<le> l" for xs ys :: string and l :: nat
    by (rule norm_distance_ge) (use that indel_distance_le[of xs ys] in linarith)
  show ?thesis
    unfolding token_set_ratio_def Let_def
    by (auto simp: norm_distance_le le_max_iff_disj ge)
qed

lemma token_set_ratio_self:
  assumes "split_sequence n \<noteq> []"
  shows "token_set_ratio n n = 100"
  using assms by (simp add: token_set_ratio_def Let_def)

lemma token_set_ratio_no_tokens:
  assumes "split_sequence c = []"
  shows "token_set_ratio q c = 0"
  using assms by (simp add: token_set_ratio_def Let_def)

lemma first_id_index:
  assumes "i < length names" "length ids = length names" "\<forall>j<i. names ! j \<noteq> names ! i"
  shows "first_id (map Str names) ids (names ! i) = Inr (ids ! i)"
  using assms
proof (induction names arbitrary: i ids)
  case Nil
  then show ?case by simp
next
  case (Cons n names)
  then obtain k ids' where ids: "ids = k # ids'" by (cases ids) auto
  show ?case
  proof (cases i)
    case 0
    then show ?thesis using ids by (simp add: first_id_def)
  next
    case (Suc i')
    have ne: "n \<noteq> names ! i'" using Cons.prems(3) Suc by auto
    have "first_id (map Str names) ids' (names ! i') = Inr (ids' ! i')"
      using Cons.prems Suc ids by (intro Cons.IH) auto
    then show ?thesis using Suc ids ne by (simp add: first_id_def)
  qed
qed

lemma extractOne_loop_cong:
  assumes "\<forall>c. Str c \<in> set choices \<longrightarrow> s1 q c = s2 q c"
  shows "extractOne_loop s1 q r i choices = extractOne_loop s2 q r i choices"
  using assms
proof (induction choices arbitrary: r i)
  case Nil
  then show ?case by simp
next
  case (Cons c choices)
  then show ?case by (cases c) (simp_all add: Let_def)
qed

lemma first_index_props:
  assumes "i < length xs" "P (xs ! i)"
  shows "first_index P xs \<le> i" "P (xs ! first_index P xs)" "\<forall>k<first_index P xs. \<not> P (xs ! k)"
proof -
  show le: "first_index P xs \<le> i"
  proof (rule ccontr)
    assume "\<not> first_index P xs \<le> i"
    then have l: "i < length (takeWhile (\<lambda>x. \<not> P x) xs)" by (simp add: first_index_def)
    have "takeWhile (\<lambda>x. \<not> P x) xs ! i \<in> set (takeWhile (\<lambda>x. \<not> P x) xs)"
      using l by (rule nth_mem)
    moreover have "takeWhile (\<lambda>x. \<not> P x) xs ! i = xs ! i"
      using l by (rule takeWhile_nth)
    ultimately have "\<not> P (xs ! i)" by (metis set_takeWhileD)
    then show False using assms(2) by simp
  qed
  then have "length (takeWhile (\<lambda>x. \<not> P x) xs) < length xs"
    using assms(1) by (simp add: first_index_def)
  then have "\<not> \<not> P (xs ! length (takeWhile (\<lambda>x. \<not> P x) xs))"
    by (rule nth_length_takeWhile)
  then show "P (xs ! first_index P xs)" by (simp add: first_index_def)
  show "\<forall>k<first_index P xs. \<not> P (xs ! k)"
  proof (intro allI impI)
    fix k assume "k < first_index P xs"
    then have l: "k < length (takeWhile (\<lambda>x. \<not> P x) xs)" by (simp add: first_index_def)
    have "takeWhile (\<lambda>x. \<not> P x) xs ! k \<in> set (takeWhile (\<lambda>x. \<not> P x) xs)"
      using l by (rule nth_mem)
    moreover have "takeWhile (\<lambda>x. \<not> P x) xs ! k = xs ! k"
      using l by (rule takeWhile_nth)
    ultimately show "\<not> P (xs ! k)" by (metis set_takeWhileD)
  qed
qed

lemma token_set_ratio_no_tokens_query:
  assumes "split_sequence q = []"
  shows "token_set_ratio q c = 0"
  using assms by (simp add: token_set_ratio_def Let_def)

lemma bindE_weak_cong: "m = m' \<Longrightarrow> bindE m f = bindE m' f"
  by simp

lemma bindE_Inl: "bindE (Inl e) f = Inl e"
  by (simp add: bindE_def)

lemmas pipeline_defs =
  transform_data_def setcol_scalar_def nrows_def concat_frames_def unique_def col_or_na_def
  coerce_date_def getcol_def bindE_Inr bindE_Inl to_datetime_def coerce_def in_bounds_def
  make_dim_date_def series_min_def series_max_def timestamps_def py_min_def py_max_def
  make_dim_def dropna_def id_range_def make_dim_competition_def resolve_column_def
  map_name_to_id_def fuzzy_match_def extractOne_def first_id_def make_dim_match_def
  select_cols_def drop_duplicates_def rename_col_def Let_def

section \<open>The claims about the resolver\<close>

subsection \<open>C1: the resolver returns the first candidate of maximum score, if it meets the threshold\<close>

text \<open>
  Claim C1. A missing query gives a missing result whatever the scorer and the dimension
  table are, so nothing is scored. For a text query and a non-empty list of candidates
  whose scores lie between 0 and 100, \<^verbatim>\<open>fuzzy_match\<close> returns what the specification's
  resolver returns: the first candidate of maximum score when that score is at least the
  threshold, and nothing otherwise.
\<close>

theorem resolve_first_maximum:
  assumes "candidates \<noteq> []"
      and "\<forall>c\<in>set candidates. 0 \<le> scorer q c \<and> scorer q c \<le> 100"
  shows "map_name_to_id scorer NA dim_df name_col id_col = Inr NA \<and>
         spec_resolve scorer None candidates threshold = None \<and>
         fuzzy_match scorer q (map Str candidates) threshold =
           Inr (spec_resolve scorer (Some q) candidates threshold)"
proof -
  have "fuzzy_match scorer q (map Str candidates) threshold =
          Inr (spec_resolve scorer (Some q) candidates threshold)"
    by (rule fuzzy_match_spec) (use assms in auto)
  then show ?thesis by (simp add: map_name_to_id_def spec_resolve_def)
qed

theorem resolve_first_maximum_witness:
  "map_name_to_id token_set_ratio NA [] ''team_name_std'' ''team_id'' = Inr NA \<and>
   fuzzy_match token_set_ratio ''Alpha FC'' [Str ''FC Alpha'', Str ''FC Beta'', Str ''Alpha FC''] 85
     = Inr (Some ''FC Alpha'') \<and>
   fuzzy_match token_set_ratio ''Gamma United'' [Str ''FC Alpha'', Str ''FC Beta'', Str ''Alpha FC''] 85
     = Inr None"
proof -
  have ne: "[''FC Alpha'', ''FC Beta'', ''Alpha FC''] \<noteq> []" by simp
  have b: "\<forall>c\<in>set [''FC Alpha'', ''FC Beta'', ''Alpha FC''].
             0 \<le> token_set_ratio q c \<and> token_set_ratio q c \<le> 100" for q
    using token_set_ratio_bounds by blast
  have s1: "spec_resolve token_set_ratio (Some ''Alpha FC'') [''FC Alpha'', ''FC Beta'', ''Alpha FC''] 85
              = Some ''FC Alpha''"
    by code_simp
  have s2: "spec_resolve token_set_ratio (Some ''Gamma United'') [''FC Alpha'', ''FC Beta'', ''Alpha FC''] 85
              = None"
    by code_simp
  show ?thesis
    using resolve_first_maximum[where scorer = token_set_ratio and q = "''Alpha FC''"
            and dim_df = "[]" and threshold = 85, OF ne b]
          resolve_first_maximum[where scorer = token_set_ratio and q = "''Gamma United''"
            and dim_df = "[]" and threshold = 85, OF ne b]
    by (simp add: s1 s2)
qed

subsection \<open>C8: the resolver is deterministic\<close>

text \<open>
  Claim C8. The result of \<^verbatim>\<open>fuzzy_match\<close> is determined by the query, the list of choices,
  the threshold and the scores of the query against these choices: two calls that agree
  on them return the same result.
\<close>

theorem resolve_deterministic:
  assumes "\<forall>c. Str c \<in> set choices \<longrightarrow> scorer1 q c = scorer2 q c"
  shows "fuzzy_match scorer1 q choices threshold = fuzzy_match scorer2 q choices threshold"
proof -
  have "extractOne_loop scorer1 q None 0 choices = extractOne_loop scorer2 q None 0 choices"
    by (rule extractOne_loop_cong) (use assms in auto)
  then show ?thesis by (simp add: fuzzy_match_def extractOne_def)
qed

theorem resolve_deterministic_witness:
  "fuzzy_match token_set_ratio ''Alpha FC'' [Str ''FC Alpha'', NA, Str ''FC Beta''] 85 =
   fuzzy_match (\<lambda>a b. if b = ''FC Gamma'' then 100 else token_set_ratio a b) ''Alpha FC''
     [Str ''FC Alpha'', NA, Str ''FC Beta''] 85"
  by (rule resolve_deterministic) auto

subsection \<open>C10: a matched empty name resolves to no key\<close>

text \<open>
  Claim C10. When the best candidate for a text query is the empty text, whatever its
  score, \<^verbatim>\<open>map_name_to_id\<close> returns a missing key: the matched name is tested for
  truthiness.
\<close>

theorem empty_match_is_dropped:
  assumes "getcol dim_df name_col = Inr choices"
      and "extractOne scorer n choices = Inr (Some ([], score, k))"
  shows "map_name_to_id scorer (Str n) dim_df name_col id_col = Inr NA"
  using assms by (simp add: map_name_to_id_def fuzzy_match_def bindE_def)

theorem empty_match_is_dropped_witness:
  "getcol [(''team_name_std'', [Str '''']), (''team_id'', [Num 1])] ''team_name_std'' = Inr [Str ''''] \<and>
   extractOne (\<lambda>a b. 100) ''x'' [Str ''''] = Inr (Some ([], 100, 0)) \<and>
   (85 :: real) \<le> 100 \<and>
   first_id [Str ''''] [Num 1] [] = Inr (Num 1) \<and>
   map_name_to_id (\<lambda>a b. 100) (Str ''x'') [(''team_name_std'', [Str '''']), (''team_id'', [Num 1])]
     ''team_name_std'' ''team_id'' = Inr NA"
proof -
  have g: "getcol [(''team_name_std'', [Str '''']), (''team_id'', [Num 1])] ''team_name_std'' = Inr [Str '''']"
    by (simp add: getcol_def)
  have e: "extractOne (\<lambda>a b. 100) ''x'' [Str ''''] = Inr (Some ([], 100, 0))"
    by (simp add: extractOne_def)
  show ?thesis
    using empty_match_is_dropped[OF g e, of "''team_id''"] g e
    by (simp add: first_id_def)
qed

subsection \<open>C2: resolving a canonical name against its own table\<close>

text \<open>
  Claim C2 as stated fails: two canonical names with the same tokens both score 100
  against either of them, and the first row wins. Whichever order the set gives the
  two names, the second one resolves to the key of the first.
\<close>

theorem self_match_first_row_wins:
  "make_dim remdups [Str ''FC Alpha''] [Str ''Alpha FC''] [] ''team_name_std'' ''team_id'' =
     [(''team_name_std'', [Str ''FC Alpha'', Str ''Alpha FC'']), (''team_id'', [Num 1, Num 2])] \<and>
   map_name_to_id token_set_ratio (Str ''Alpha FC'')
     [(''team_name_std'', [Str ''FC Alpha'', Str ''Alpha FC'']), (''team_id'', [Num 1, Num 2])]
     ''team_name_std'' ''team_id'' = Inr (Num 1) \<and>
   map_name_to_id token_set_ratio (Str ''FC Alpha'')
     [(''team_name_std'', [Str ''Alpha FC'', Str ''FC Alpha'']), (''team_id'', [Num 1, Num 2])]
     ''team_name_std'' ''team_id'' = Inr (Num 1)"
  by code_simp

text \<open>
  Claim C2, amended. Resolving a canonical name of a dimension table against that table,
  with the threshold 85 of the code: a name without a token resolves to no key; any
  other name resolves to the key of the first row of the table that scores 100 against
  it, which is its own key when no earlier row scores 100 against it.
\<close>

theorem self_match:
  assumes "getcol dim_df name_col = Inr (map Str names)"
      and "getcol dim_df id_col = Inr ids"
      and "length ids = length names"
      and "i < length names"
  shows "map_name_to_id token_set_ratio (Str (names ! i)) dim_df name_col id_col =
           (if split_sequence (names ! i) = [] then Inr NA
            else Inr (ids ! first_index (\<lambda>c. token_set_ratio (names ! i) c = 100) names)) \<and>
         (split_sequence (names ! i) \<noteq> [] \<and>
          (\<forall>j<i. token_set_ratio (names ! i) (names ! j) < 100) \<longrightarrow>
            map_name_to_id token_set_ratio (Str (names ! i)) dim_df name_col id_col = Inr (ids ! i))"
proof -
  let ?n = "names ! i"
  let ?f = "token_set_ratio ?n"
  let ?j = "first_index (\<lambda>c. ?f c = 100) names"
  have ne: "names \<noteq> []" using assms(4) by auto
  have fm: "fuzzy_match token_set_ratio ?n (map Str names) 85 =
          Inr (spec_resolve token_set_ratio (Some ?n) names 85)"
    using token_set_ratio_bounds ne by (intro fuzzy_match_spec) auto
  have main: "map_name_to_id token_set_ratio (Str ?n) dim_df name_col id_col =
           (if split_sequence ?n = [] then Inr NA else Inr (ids ! ?j))"
  proof (cases "split_sequence ?n = []")
    case True
    then have "?f c = 0" for c by (rule token_set_ratio_no_tokens_query)
    moreover obtain x where "x \<in> set names" using ne by (cases names) auto
    ultimately have "Max (set (map ?f names)) = 0" by (intro Max_eqI) auto
    then have "spec_resolve token_set_ratio (Some ?n) names 85 = None"
      by (simp add: spec_resolve_def)
    then show ?thesis using True assms(1) fm by (simp add: map_name_to_id_def bindE_def)
  next
    case False
    then have self: "?f ?n = 100" by (rule token_set_ratio_self)
    note fi = first_index_props[of i names "\<lambda>c. ?f c = 100", OF assms(4) self]
    have jl: "?j < length names" using fi(1) assms(4) by simp
    have mx: "Max (set (map ?f names)) = 100"
      using assms(4) self token_set_ratio_bounds[of ?n]
      by (intro Max_eqI) (auto simp del: set_map simp: in_set_conv_nth)
    have fnd: "find (\<lambda>c. ?f c = 100) names = Some (names ! ?j)"
      unfolding find_Some_iff
      by (rule exI[of _ ?j]) (use jl fi(2,3) in auto)
    have m: "fuzzy_match token_set_ratio ?n (map Str names) 85 = Inr (Some (names ! ?j))"
      using fm mx fnd by (simp add: spec_resolve_def)
    have tok: "split_sequence (names ! ?j) \<noteq> []"
    proof
      assume "split_sequence (names ! ?j) = []"
      then have "?f (names ! ?j) = 0" by (rule token_set_ratio_no_tokens)
      then show False using fi(2) by simp
    qed
    then have nonempty: "names ! ?j \<noteq> []" by (auto simp: split_sequence_def)
    have "\<forall>k<?j. names ! k \<noteq> names ! ?j" using fi(2,3) by metis
    then have "first_id (map Str names) ids (names ! ?j) = Inr (ids ! ?j)"
      using assms(3) jl by (intro first_id_index) auto
    then show ?thesis using False assms(1,2) m nonempty
      by (simp add: map_name_to_id_def bindE_def)
  qed
  have own: "?j = i" if "split_sequence ?n \<noteq> []" "\<forall>j<i. ?f (names ! j) < 100"
  proof -
    have self: "?f ?n = 100" using that(1) by (rule token_set_ratio_self)
    note fi = first_index_props[of i names "\<lambda>c. ?f c = 100", OF assms(4) self]
    have "\<not> ?j < i" using that(2) fi(2) by force
    then show ?thesis using fi(1) by simp
  qed
  show ?thesis using main own by auto
qed

theorem self_match_witness:
  "map_name_to_id token_set_ratio (Str ''FC Beta'')
     [(''team_name_std'', [Str ''FC Alpha'', Str ''FC Beta'']), (''team_id'', [Num 1, Num 2])]
     ''team_name_std'' ''team_id'' = Inr (Num 2) \<and>
   map_name_to_id token_set_ratio (Str '' '')
     [(''team_name_std'', [Str ''FC Alpha'', Str '' '']), (''team_id'', [Num 1, Num 2])]
     ''team_name_std'' ''team_id'' = Inr NA \<and>
   first_index (\<lambda>c. token_set_ratio ''Alpha FC'' c = 100) [''FC Alpha'', ''Alpha FC''] = 0 \<and>
   map_name_to_id token_set_ratio (Str ''Alpha FC'')
     [(''team_name_std'', [Str ''FC Alpha'', Str ''Alpha FC'']), (''team_id'', [Num 1, Num 2])]
     ''team_name_std'' ''team_id'' = Inr (Num 1)"
proof -
  have t: "split_sequence ''FC Beta'' \<noteq> []" "split_sequence '' '' = []"
    "split_sequence ''Alpha FC'' \<noteq> []"
    "token_set_ratio ''FC Beta'' ''FC Alpha'' < 100"
    "token_set_ratio ''Alpha FC'' ''FC Alpha'' = 100"
    by code_simp+
  have a: "map_name_to_id token_set_ratio (Str ''FC Beta'')
     [(''team_name_std'', [Str ''FC Alpha'', Str ''FC Beta'']), (''team_id'', [Num 1, Num 2])]
     ''team_name_std'' ''team_id'' = Inr (Num 2)"
    using self_match[of "[(''team_name_std'', [Str ''FC Alpha'', Str ''FC Beta'']), (''team_id'', [Num 1, Num 2])]"
                        "''team_name_std''" "[''FC Alpha'', ''FC Beta'']" "''team_id''" "[Num 1, Num 2]" 1,
                        THEN conjunct2] t
    by (simp add: getcol_def)
  have b: "map_name_to_id token_set_ratio (Str '' '')
     [(''team_name_std'', [Str ''FC Alpha'', Str '' '']), (''team_id'', [Num 1, Num 2])]
     ''team_name_std'' ''team_id'' = Inr NA"
    using self_match[of "[(''team_name_std'', [Str ''FC Alpha'', Str '' '']), (''team_id'', [Num 1, Num 2])]"
                        "''team_name_std''" "[''FC Alpha'', '' '']" "''team_id''" "[Num 1, Num 2]" 1,
                        THEN conjunct1] t
    by (simp add: getcol_def)
  have i: "first_index (\<lambda>c. token_set_ratio ''Alpha FC'' c = 100) [''FC Alpha'', ''Alpha FC''] = 0"
    using t by (simp add: first_index_def)
  have c: "map_name_to_id token_set_ratio (Str ''Alpha FC'')
     [(''team_name_std'', [Str ''FC Alpha'', Str ''Alpha FC'']), (''team_id'', [Num 1, Num 2])]
     ''team_name_std'' ''team_id'' = Inr (Num 1)"
    using self_match[of "[(''team_name_std'', [Str ''FC Alpha'', Str ''Alpha FC'']), (''team_id'', [Num 1, Num 2])]"
                        "''team_name_std''" "[''FC Alpha'', ''Alpha FC'']" "''team_id''" "[Num 1, Num 2]" 1,
                        THEN conjunct1] t i
    by (simp add: getcol_def)
  show ?thesis using a b i c by simp
qed

subsection \<open>C3: an empty candidate list\<close>

text \<open>
  Claim C3 fails on the code: with no candidate \<^verbatim>\<open>extractOne\<close> returns None, which
  \<^verbatim>\<open>fuzzy_match\<close> cannot unpack. The run of the transform on tables in which only the
  match table names a team ends in this TypeError.
\<close>

theorem empty_candidates_raise:
  "fuzzy_match token_set_ratio ''FC Alpha'' [] 85 = Inl TypeError \<and>
   transform_data iso_date remdups token_set_ratio no_team_example = Inl TypeError"
proof -
  have d1: "iso_date ''2024-01-01'' = Some 1704067200000000000" by code_simp
  have d2: "iso_date ''2024-01-02'' = Some 1704153600000000000" by code_simp
  have r: "date_range (Ts 1704067200000000000) (Ts 1704153600000000000)
             = Inr [1704067200000000000, 1704153600000000000]"
    by code_simp
  have s: "token_set_ratio ''Ann Lee'' ''Ann Lee'' = 100" by code_simp
  have "fuzzy_match token_set_ratio ''FC Alpha'' [] 85 = Inl TypeError"
    by (simp add: fuzzy_match_def extractOne_def bindE_def)
  moreover have "transform_data iso_date remdups token_set_ratio no_team_example = Inl TypeError"
    by (simp add: no_team_example_def d1 d2 r s pipeline_defs del: date_range.simps
             cong: bindE_weak_cong)
  ultimately show ?thesis by simp
qed


section \<open>Properties of the frame operations\<close>

lemma bindE_eq_Inr: "bindE m f = Inr y \<longleftrightarrow> (\<exists>x. m = Inr x \<and> f x = Inr y)"
  by (cases m) (simp_all add: bindE_def)

lemma map_of_setcol: "map_of (setcol df c s) c' = (if c' = c then Some s else map_of df c')"
  by (induction df) auto

lemma getcol_eq_Inr: "getcol df c = Inr s \<longleftrightarrow> map_of df c = Some s"
  by (simp add: getcol_def split: option.splits)

lemma set_unique: "set (unique xs) = set xs"
  by (simp add: unique_def)

lemma distinct_unique: "distinct (unique xs)"
  by (simp add: unique_def)

lemma map_of_tabulate: "map_of (map (\<lambda>c. (c, g c)) xs) c = (if c \<in> set xs then Some (g c) else None)"
  by (induction xs) auto

lemma map_of_concat_frames:
  "map_of (concat_frames a b) c =
     (if c \<in> fst ` set a \<union> fst ` set b then Some (col_or_na a c @ col_or_na b c) else None)"
  by (simp add: concat_frames_def map_of_tabulate set_unique)

lemma coerce_date_Inr:
  "coerce_date parse df = Inr df' \<longleftrightarrow>
     (\<exists>s. map_of df ''date'' = Some s \<and> df' = setcol df ''date'' (to_datetime parse s))"
  by (auto simp: coerce_date_def bindE_eq_Inr getcol_eq_Inr)

lemma resolve_column_Inr:
  assumes "resolve_column scorer df col dim_df name_col id_col target = Inr df'"
  shows "\<exists>ids. df' = setcol df target ids"
  using assms by (auto simp: resolve_column_def bindE_eq_Inr)

lemma transform_data_steps:
  assumes "transform_data parse set_order scorer inp = Inr (out, inp')"
  shows "\<exists>gps0 matches0 outfield0 goalkeeper0 gps_dates match_dates gps_team outfield_team
           goalkeeper_team gps_name outfield_player goalkeeper_player competition gps1 gps2
           outfield1 goalkeeper1 outfield2 goalkeeper2 matches1 matches2.
          coerce_date parse (concat_frames
              (setcol_scalar (gps_match inp) ''session_type'' (Str ''match''))
              (setcol_scalar (gps_training inp) ''session_type'' (Str ''training''))) = Inr gps0 \<and>
          coerce_date parse (wyscout_matches inp) = Inr matches0 \<and>
          coerce_date parse (wyscout_outfield inp) = Inr outfield0 \<and>
          coerce_date parse (wyscout_goalkeeper inp) = Inr goalkeeper0 \<and>
          getcol gps0 ''date'' = Inr gps_dates \<and>
          getcol matches0 ''date'' = Inr match_dates \<and>
          make_dim_date gps_dates match_dates = Inr (dim_date out) \<and>
          getcol gps0 ''team_name'' = Inr gps_team \<and>
          getcol outfield0 ''team_name'' = Inr outfield_team \<and>
          getcol goalkeeper0 ''team_name'' = Inr goalkeeper_team \<and>
          dim_team out = make_dim set_order gps_team outfield_team goalkeeper_team
                           ''team_name_std'' ''team_id'' \<and>
          getcol gps0 ''name'' = Inr gps_name \<and>
          getcol outfield0 ''player'' = Inr outfield_player \<and>
          getcol goalkeeper0 ''player'' = Inr goalkeeper_player \<and>
          dim_player out = make_dim set_order gps_name outfield_player goalkeeper_player
                             ''player_name_std'' ''player_id'' \<and>
          getcol matches0 ''competition'' = Inr competition \<and>
          dim_competition out = make_dim_competition competition \<and>
          resolve_column scorer gps0 ''team_name'' (dim_team out)
            ''team_name_std'' ''team_id'' ''team_id'' = Inr gps1 \<and>
          resolve_column scorer gps1 ''name'' (dim_player out)
            ''player_name_std'' ''player_id'' ''player_id'' = Inr gps2 \<and>
          resolve_column scorer outfield0 ''team_name'' (dim_team out)
            ''team_name_std'' ''team_id'' ''team_id'' = Inr outfield1 \<and>
          resolve_column scorer goalkeeper0 ''team_name'' (dim_team out)
            ''team_name_std'' ''team_id'' ''team_id'' = Inr goalkeeper1 \<and>
          resolve_column scorer outfield1 ''player'' (dim_player out)
            ''player_name_std'' ''player_id'' ''player_id'' = Inr outfield2 \<and>
          resolve_column scorer goalkeeper1 ''player'' (dim_player out)
            ''player_name_std'' ''player_id'' ''player_id'' = Inr goalkeeper2 \<and>
          resolve_column scorer matches0 ''team_name'' (dim_team out)
            ''team_name_std'' ''team_id'' ''team_id'' = Inr matches1 \<and>
          resolve_column scorer matches1 ''competition'' (dim_competition out)
            ''competition'' ''competition_id'' ''competition_id'' = Inr matches2 \<and>
          make_dim_match matches2 = Inr (dim_match out) \<and>
          fact_player_gps out = gps2 \<and>
          fact_player_wyscout out =
            concat_frames (setcol_scalar goalkeeper2 ''player_type'' (Str ''goalkeeper''))
                          (setcol_scalar outfield2 ''player_type'' (Str ''outfield'')) \<and>
          fact_wyscout_match out = matches2 \<and>
          gps_match inp' = setcol_scalar (gps_match inp) ''session_type'' (Str ''match'') \<and>
          gps_training inp' = setcol_scalar (gps_training inp) ''session_type'' (Str ''training'') \<and>
          wyscout_outfield inp' = setcol_scalar outfield2 ''player_type'' (Str ''outfield'') \<and>
          wyscout_goalkeeper inp' = setcol_scalar goalkeeper2 ''player_type'' (Str ''goalkeeper'') \<and>
          wyscout_matches inp' = matches2"
  using assms unfolding transform_data_def Let_def bindE_eq_Inr
  apply (elim exE conjE)
  apply (simp only: sum.inject prod.inject)
  apply (elim conjE)
  apply hypsubst
  apply (simp only: inputs.simps outputs.simps)
  apply (intro exI conjI)
  apply (assumption | rule refl)+
  done

section \<open>The calendar\<close>

text \<open>
  The year of the era and the day of the year that \<^verbatim>\<open>civil_from_days\<close> computes: a day
  of the era is split into its century, its four year cycle, its year and its day.
\<close>

lemma year_of_era:
  fixes doe :: int
  assumes "0 \<le> doe" "doe \<le> 146096"
  defines "yoe \<equiv> (doe - doe div 1460 + doe div 36524 - doe div 146096) div 365"
  shows "0 \<le> yoe \<and> yoe \<le> 399 \<and>
         0 \<le> doe - (365 * yoe + yoe div 4 - yoe div 100) \<and>
         doe - (365 * yoe + yoe div 4 - yoe div 100) \<le> 365"
proof (cases "doe = 146096")
  case True
  then show ?thesis by (simp add: yoe_def)
next
  case False
  then have le: "doe \<le> 146095" using assms(2) by simp
  define c where "c = doe div 36524"
  define r where "r = doe mod 36524"
  define q where "q = r div 1461"
  define r2 where "r2 = r mod 1461"
  have d1: "doe = 36524 * c + r" "0 \<le> r" "r < 36524"
    by (simp_all add: c_def r_def)
  have c: "0 \<le> c" "c \<le> 3" using d1 assms(1) le by linarith+
  have d2: "r = 1461 * q + r2" "0 \<le> r2" "r2 < 1461"
    by (simp_all add: q_def r2_def)
  have q: "0 \<le> q" "q \<le> 24" using d1 d2 by linarith+
  have last: "q = 24 \<longrightarrow> r2 \<le> 1459" using d1 d2 by linarith
  obtain y t where yt: "r2 = 365 * y + t" "0 \<le> y" "y \<le> 3" "0 \<le> t" "t \<le> 365" "t = 365 \<longrightarrow> y = 3"
  proof (cases "r2 = 1460")
    case True
    then show ?thesis using that[of 3 365] by simp
  next
    case F: False
    have "r2 = 365 * (r2 div 365) + r2 mod 365" by simp
    moreover have "0 \<le> r2 mod 365" "r2 mod 365 < 365" by simp_all
    moreover have "0 \<le> r2 div 365" "r2 div 365 \<le> 3" using d2 F by linarith+
    ultimately show ?thesis using that[of "r2 div 365" "r2 mod 365"] by linarith
  qed
  define e :: int where "e = (if 1460 \<le> 24 * c + q + 365 * y + t then 1 else 0)"
  have e: "0 \<le> e" "e \<le> 1" by (simp_all add: e_def)
  have small: "24 * c + q + 365 * y + t - 1460 * e < 1460" "0 \<le> 24 * c + q + 365 * y + t - 1460 * e"
    using c q yt last d2 by (auto simp: e_def)
  have A1: "doe = 1460 * (25 * c + q + e) + (24 * c + q + 365 * y + t - 1460 * e)"
    using d1(1) d2(1) yt(1) by (simp add: algebra_simps)
  have A: "doe div 1460 = 25 * c + q + e"
    using A1 small(2,1) by (rule int_div_pos_eq)
  have B: "doe div 36524 = c" by (simp add: c_def)
  have C: "doe div 146096 = 0" using assms(1) le by simp
  have te: "0 \<le> t - e" "t - e < 365"
    using c q yt by (auto simp: e_def)
  have N1: "doe - (25 * c + q + e) + c - 0 = 365 * (100 * c + 4 * q + y) + (t - e)"
    using d1(1) d2(1) yt(1) by (simp add: algebra_simps)
  have "yoe = 100 * c + 4 * q + y"
    unfolding yoe_def A B C
    using N1 te by (rule int_div_pos_eq)
  moreover have "(100 * c + 4 * q + y) div 4 = 25 * c + q"
    by (rule int_div_pos_eq[where r = y]) (use yt in \<open>simp_all add: algebra_simps\<close>)
  moreover have "(100 * c + 4 * q + y) div 100 = c"
    by (rule int_div_pos_eq[where r = "4 * q + y"]) (use yt q in \<open>simp_all add: algebra_simps\<close>)
  ultimately show ?thesis using c q yt d1 d2 by simp
qed

lemma month_day:
  fixes doy :: int
  assumes "0 \<le> doy" "doy \<le> 365"
  defines "mp \<equiv> (5 * doy + 2) div 153"
  shows "0 \<le> mp \<and> mp \<le> 11 \<and> 1 \<le> doy - (153 * mp + 2) div 5 + 1 \<and> doy - (153 * mp + 2) div 5 + 1 \<le> 31"
  using assms(1,2) unfolding mp_def by linarith

lemma civil_from_days_valid:
  assumes "civil_from_days z = (y, m, d)"
  shows "1 \<le> m \<and> m \<le> 12 \<and> 1 \<le> d \<and> d \<le> 31 \<and>
         400 * ((z + 719468) div 146097) \<le> y \<and> y \<le> 400 * ((z + 719468) div 146097) + 400"
proof -
  define era where "era = (z + 719468) div 146097"
  define doe where "doe = z + 719468 - era * 146097"
  define yoe where "yoe = (doe - doe div 1460 + doe div 36524 - doe div 146096) div 365"
  define doy where "doy = doe - (365 * yoe + yoe div 4 - yoe div 100)"
  define mp where "mp = (5 * doy + 2) div 153"
  have "doe = (z + 719468) mod 146097"
    by (simp add: doe_def era_def minus_div_mult_eq_mod)
  then have doe: "0 \<le> doe" "doe \<le> 146096" by simp_all
  have yd: "0 \<le> yoe \<and> yoe \<le> 399 \<and> 0 \<le> doy \<and> doy \<le> 365"
    unfolding doy_def yoe_def using doe by (rule year_of_era)
  then have md: "0 \<le> mp \<and> mp \<le> 11 \<and> 1 \<le> doy - (153 * mp + 2) div 5 + 1 \<and>
                 doy - (153 * mp + 2) div 5 + 1 \<le> 31"
    unfolding mp_def by (intro month_day) auto
  have "civil_from_days z =
          (if (if mp < 10 then mp + 3 else mp - 9) \<le> 2 then yoe + era * 400 + 1 else yoe + era * 400,
           if mp < 10 then mp + 3 else mp - 9,
           doy - (153 * mp + 2) div 5 + 1)"
    unfolding civil_from_days_def Let_def era_def doe_def yoe_def doy_def mp_def by (rule refl)
  then have eq: "y = (if (if mp < 10 then mp + 3 else mp - 9) \<le> 2 then yoe + era * 400 + 1 else yoe + era * 400)"
      "m = (if mp < 10 then mp + 3 else mp - 9)" "d = doy - (153 * mp + 2) div 5 + 1"
    using assms by simp_all
  have "1 \<le> m \<and> m \<le> 12" using eq(2) md by (simp split: if_splits)
  moreover have "1 \<le> d \<and> d \<le> 31" using eq(3) md by blast
  moreover have "400 * era \<le> y \<and> y \<le> 400 * era + 400" using eq(1) yd by (simp split: if_splits)
  ultimately show ?thesis unfolding era_def by blast
qed



lemma int_of_text_fold: "int_of_text s = fold digit_step s 0"
  by (simp add: int_of_text_def)

lemma digit_step_digit: "k < 10 \<Longrightarrow> digit_step (char_of (48 + k)) a = 10 * a + int k"
  by (simp add: digit_step_def of_char_of)

lemma fold_decimal: "fold digit_step (decimal n) a = a * 10 ^ length (decimal n) + int n"
proof (induction n arbitrary: a rule: decimal.induct)
  case (1 n)
  show ?case
  proof (cases "n < 10")
    case True
    then show ?thesis by (subst (1 2) decimal.simps) (simp add: digit_step_digit)
  next
    case False
    have m: "n mod 10 < 10" by simp
    have n: "int n = 10 * int (n div 10) + int (n mod 10)" by presburger
    have "fold digit_step (decimal n) a =
            digit_step (char_of (48 + n mod 10)) (fold digit_step (decimal (n div 10)) a)"
      using False by (subst decimal.simps) simp
    also have "\<dots> = 10 * (a * 10 ^ length (decimal (n div 10)) + int (n div 10)) + int (n mod 10)"
      by (simp only: digit_step_digit[OF m] 1[OF False])
    also have "\<dots> = a * 10 ^ (length (decimal (n div 10)) + 1) + int n"
      using n by (simp add: algebra_simps)
    also have "length (decimal (n div 10)) + 1 = length (decimal n)"
      using False by (subst (2) decimal.simps) simp
    finally show ?thesis .
  qed
qed

lemma fold_zeros: "fold digit_step (replicate k CHR ''0'') a = a * 10 ^ k"
  by (induction k arbitrary: a) (simp_all add: digit_step_def del: fold_replicate)

lemma length_decimal_2: "n < 100 \<Longrightarrow> length (decimal n) \<le> 2"
  by (subst decimal.simps, subst decimal.simps) auto

lemma length_decimal_4: "n < 10000 \<Longrightarrow> length (decimal n) \<le> 4"
  by (subst decimal.simps, subst decimal.simps, subst decimal.simps, subst decimal.simps) auto

lemma length_decimal_pos: "0 < length (decimal n)"
  by (subst decimal.simps) simp

lemma fold_zero_pad:
  assumes "length (decimal n) \<le> w"
  shows "fold digit_step (zero_pad w n) a = a * 10 ^ w + int n" "length (zero_pad w n) = w"
proof -
  have "a * 10 ^ (w - length (decimal n)) * 10 ^ length (decimal n) = a * 10 ^ w"
    using assms by (simp add: mult.assoc flip: power_add)
  then show "fold digit_step (zero_pad w n) a = a * 10 ^ w + int n"
    by (simp add: zero_pad_def fold_zeros fold_decimal del: fold_replicate)
  show "length (zero_pad w n) = w" using assms by (simp add: zero_pad_def)
qed

lemma strftime_Ymd_number:
  assumes "in_bounds ns"
  shows "int_of_text (strftime_Ymd ns) = year_of ns * 10000 + month_of ns * 100 + day_of ns"
    and "length (strftime_Ymd ns) = 8"
    and "1600 \<le> year_of ns \<and> year_of ns \<le> 2400"
    and "1 \<le> month_of ns \<and> month_of ns \<le> 12"
    and "1 \<le> day_of ns \<and> day_of ns \<le> 31"
proof -
  obtain y m d where c: "civil_from_days (day_number ns) = (y, m, d)"
    by (cases "civil_from_days (day_number ns)") auto
  have z: "- 106752 \<le> day_number ns" "day_number ns \<le> 106751"
    using assms unfolding in_bounds_def day_number_def day_ns_def by linarith+
  have era: "4 \<le> (day_number ns + 719468) div 146097" "(day_number ns + 719468) div 146097 \<le> 5"
    using z by linarith+
  have v: "1 \<le> m" "m \<le> 12" "1 \<le> d" "d \<le> 31" "1600 \<le> y" "y \<le> 2400"
    using civil_from_days_valid[OF c] era by linarith+
  have eq: "year_of ns = y" "month_of ns = m" "day_of ns = d"
    using c by (simp_all add: year_of_def month_of_def day_of_def)
  show "1600 \<le> year_of ns \<and> year_of ns \<le> 2400" "1 \<le> month_of ns \<and> month_of ns \<le> 12"
       "1 \<le> day_of ns \<and> day_of ns \<le> 31"
    using v eq by simp_all
  have ly: "length (decimal (nat y)) \<le> 4" using v by (intro length_decimal_4) linarith
  have lm: "length (decimal (nat m)) \<le> 2" using v by (intro length_decimal_2) linarith
  have ld: "length (decimal (nat d)) \<le> 2" using v by (intro length_decimal_2) linarith
  show "int_of_text (strftime_Ymd ns) = year_of ns * 10000 + month_of ns * 100 + day_of ns"
    using v by (simp add: int_of_text_fold strftime_Ymd_def eq fold_zero_pad[OF ly]
                  fold_zero_pad[OF lm] fold_zero_pad[OF ld])
  show "length (strftime_Ymd ns) = 8"
    by (simp add: strftime_Ymd_def eq fold_zero_pad[OF ly] fold_zero_pad[OF lm] fold_zero_pad[OF ld])
qed

section \<open>Properties of the dimension builders\<close>

lemma set_dropna: "set (dropna s) = set s - {NA}"
  by (auto simp: dropna_def)

lemma id_range_props:
  "length (id_range n) = n" "distinct (id_range n)" "set (id_range n) = Num ` {1 .. int n}"
proof -
  show "length (id_range n) = n" by (simp add: id_range_def)
  show "distinct (id_range n)" by (simp add: id_range_def distinct_map inj_on_def)
  have "(\<lambda>i. int i + 1) ` {0 ..< n} = {1 .. int n}"
  proof (intro set_eqI iffI)
    fix x assume "x \<in> (\<lambda>i. int i + 1) ` {0 ..< n}"
    then show "x \<in> {1 .. int n}" by auto
  next
    fix x assume x: "x \<in> {1 .. int n}"
    then have "x = int (nat (x - 1)) + 1" "nat (x - 1) \<in> {0 ..< n}" by auto
    then show "x \<in> (\<lambda>i. int i + 1) ` {0 ..< n}" by blast
  qed
  then show "set (id_range n) = Num ` {1 .. int n}"
    by (simp add: id_range_def image_image flip: image_image[of Num "\<lambda>i. int i + 1"])
qed

lemma dense_keys_make_dim:
  assumes "\<And>xs. distinct (set_order xs)" "name_col \<noteq> id_col"
  shows "dense_keys (make_dim set_order a b c name_col id_col) name_col id_col"
  using assms by (simp add: dense_keys_def make_dim_def Let_def id_range_props)

lemma dense_keys_make_dim_competition:
  "dense_keys (make_dim_competition c) ''competition'' ''competition_id''"
  by (simp add: dense_keys_def make_dim_competition_def Let_def id_range_props distinct_unique)

lemma names_make_dim:
  assumes "\<And>xs. set (set_order xs) = set xs" "\<And>xs. distinct (set_order xs)"
  shows "set (col_or_na (make_dim set_order a b c name_col id_col) name_col) = (set a \<union> set b \<union> set c) - {NA}"
    and "distinct (col_or_na (make_dim set_order a b c name_col id_col) name_col)"
  using assms by (auto simp: col_or_na_def make_dim_def Let_def set_unique set_dropna)

lemma names_make_dim_competition:
  "set (col_or_na (make_dim_competition c) ''competition'') = set c - {NA}"
  "distinct (col_or_na (make_dim_competition c) ''competition'')"
  by (auto simp: col_or_na_def make_dim_competition_def Let_def set_unique set_dropna distinct_unique)

lemma observed_setcol: "c' \<noteq> c \<Longrightarrow> observed (setcol df c s) c' = observed df c'"
  by (auto simp: observed_def col_or_na_def map_of_setcol split: option.splits)

lemma observed_getcol: "getcol df c = Inr s \<Longrightarrow> observed df c = set s - {NA}"
  by (simp add: observed_def col_or_na_def getcol_eq_Inr)

lemma getcol_setcol_other: "c' \<noteq> c \<Longrightarrow> getcol (setcol df c s) c' = getcol df c'"
  by (simp add: getcol_def map_of_setcol)

lemma observed_concat_frames:
  assumes "getcol (concat_frames a b) c = Inr s"
  shows "set s - {NA} = observed a c \<union> observed b c"
  using assms by (auto simp: getcol_eq_Inr map_of_concat_frames observed_def split: if_splits)


lemma series_min_eq:
  "series_min s = (if timestamps s = [] then NA else Ts (Min (set (timestamps s))))"
proof (cases "timestamps s")
  case Nil
  then show ?thesis by (simp add: series_min_def)
next
  case (Cons t ts)
  have "Min (set (t # ts)) = fold min ts t" by (rule Min.set_eq_fold)
  then show ?thesis using Cons by (simp add: series_min_def)
qed

lemma series_max_eq:
  "series_max s = (if timestamps s = [] then NA else Ts (Max (set (timestamps s))))"
proof (cases "timestamps s")
  case Nil
  then show ?thesis by (simp add: series_max_def)
next
  case (Cons t ts)
  have "Max (set (t # ts)) = fold max ts t" by (rule Max.set_eq_fold)
  then show ?thesis using Cons by (simp add: series_max_def)
qed

lemma py_min_Ts: "py_min (Ts x) (Ts y) = Ts (min x y)"
  by (auto simp: py_min_def min_def)

lemma py_max_Ts: "py_max (Ts x) (Ts y) = Ts (max x y)"
  by (auto simp: py_max_def max_def)

lemma range_ends:
  assumes "timestamps gd \<noteq> []"
  shows "py_min (series_min gd) (series_min md) = Ts (Min (set (timestamps gd @ timestamps md)))"
    and "py_max (series_max gd) (series_max md) = Ts (Max (set (timestamps gd @ timestamps md)))"
proof -
  have ne: "set (timestamps gd) \<noteq> {}" using assms by simp
  show "py_min (series_min gd) (series_min md) = Ts (Min (set (timestamps gd @ timestamps md)))"
  proof (cases "timestamps md = []")
    case True
    then show ?thesis using assms by (simp add: py_min_def series_min_eq)
  next
    case False
    then have "Min (set (timestamps gd) \<union> set (timestamps md)) =
                 min (Min (set (timestamps gd))) (Min (set (timestamps md)))"
      using ne by (intro Min_Un) auto
    then show ?thesis using assms False by (simp add: py_min_Ts series_min_eq)
  qed
  show "py_max (series_max gd) (series_max md) = Ts (Max (set (timestamps gd @ timestamps md)))"
  proof (cases "timestamps md = []")
    case True
    then show ?thesis using assms by (simp add: py_max_def series_max_eq)
  next
    case False
    then have "Max (set (timestamps gd) \<union> set (timestamps md)) =
                 max (Max (set (timestamps gd))) (Max (set (timestamps md)))"
      using ne by (intro Max_Un) auto
    then show ?thesis using assms False by (simp add: py_max_Ts series_max_eq)
  qed
qed

lemma make_dim_date_Inr:
  assumes "make_dim_date gd md = Inr dd"
  defines "a \<equiv> Min (set (timestamps gd @ timestamps md))"
      and "b \<equiv> Max (set (timestamps gd @ timestamps md))"
  shows "timestamps gd \<noteq> []"
    and "col_or_na dd ''date'' = map (\<lambda>k. Ts (a + int k * day_ns)) [0 ..< nat ((b - a) div day_ns) + 1]"
    and "col_or_na dd ''date_key'' =
           map (\<lambda>k. Num (int_of_text (strftime_Ymd (a + int k * day_ns)))) [0 ..< nat ((b - a) div day_ns) + 1]"
proof -
  show ne: "timestamps gd \<noteq> []"
  proof
    assume "timestamps gd = []"
    then have "py_min (series_min gd) (series_min md) = NA" "py_max (series_max gd) (series_max md) = NA"
      by (simp_all add: py_min_def py_max_def series_min_eq series_max_eq)
    then show False using assms(1) by (simp add: make_dim_date_def bindE_def)
  qed
  obtain x where x: "x \<in> set (timestamps gd @ timestamps md)" using ne by (cases "timestamps gd") auto
  have "a \<le> x" "x \<le> b" unfolding a_def b_def using x by (simp_all del: set_append)
  then have "a \<le> b" by simp
  then have r: "date_range (Ts a) (Ts b) = Inr (map (\<lambda>k. a + int k * day_ns) [0 ..< nat ((b - a) div day_ns) + 1])"
    by simp
  have dd: "dd = (let r = map (\<lambda>k. a + int k * day_ns) [0 ..< nat ((b - a) div day_ns) + 1] in
           [(''date'', map Ts r),
                (''date_key'', map (\<lambda>t. Num (int_of_text (strftime_Ymd t))) r),
                (''year'', map (\<lambda>t. Num (year_of t)) r),
                (''month'', map (\<lambda>t. Num (month_of t)) r),
                (''day'', map (\<lambda>t. Num (day_of t)) r),
                (''week'', map (\<lambda>t. Num (week_of t)) r),
                (''quarter'', map (\<lambda>t. Num (quarter_of t)) r)])"
    using assms(1) range_ends[OF ne, of md] r
    by (simp add: make_dim_date_def bindE_def a_def b_def Let_def del: date_range.simps)
  show "col_or_na dd ''date'' = map (\<lambda>k. Ts (a + int k * day_ns)) [0 ..< nat ((b - a) div day_ns) + 1]"
    by (simp add: dd col_or_na_def Let_def o_def)
  show "col_or_na dd ''date_key'' =
           map (\<lambda>k. Num (int_of_text (strftime_Ymd (a + int k * day_ns)))) [0 ..< nat ((b - a) div day_ns) + 1]"
    by (simp add: dd col_or_na_def Let_def o_def)
qed

lemma timestamps_to_datetime:
  assumes "t \<in> set (timestamps (to_datetime parse s))"
  shows "in_bounds t"
proof -
  from assms obtain c where c: "c \<in> set s" "to_datetime_cell parse c = Ts t"
    by (auto simp: timestamps_def to_datetime_def split: cell.splits)
  show ?thesis
    using c(2) by (cases c) (auto simp: coerce_def split: option.splits if_splits)
qed

lemma col_or_na_getcol: "getcol df c = Inr s \<Longrightarrow> col_or_na df c = s"
  by (simp add: col_or_na_def getcol_eq_Inr)

lemma getcol_resolve_column:
  assumes "resolve_column scorer df col dim_df name_col id_col target = Inr df'" "c \<noteq> target"
  shows "getcol df' c = getcol df c" "map_of df' c = map_of df c"
  using resolve_column_Inr[OF assms(1)] assms(2) by (auto simp: getcol_setcol_other map_of_setcol)


lemma resolve_column_Inr_iff:
  "resolve_column scorer df col dim_df name_col id_col target = Inr df' \<longleftrightarrow>
     (\<exists>s ids. map_of df col = Some s \<and>
        mapE (\<lambda>x. map_name_to_id scorer x dim_df name_col id_col) s = Inr ids \<and>
        df' = setcol df target ids)"
  by (auto simp: resolve_column_def bindE_eq_Inr getcol_eq_Inr)

lemma setcol_not_Nil: "setcol df c s \<noteq> []"
  by (induction df c s rule: setcol.induct) auto

lemma tagged_setcol_scalar:
  assumes "df \<noteq> []"
  shows "tagged (setcol_scalar df c v) c v"
proof -
  obtain c0 s0 rest where df: "df = (c0, s0) # rest" using assms by (cases df) auto
  have "nrows (setcol_scalar df c v) = nrows df"
    by (simp add: df setcol_scalar_def nrows_def)
  then show ?thesis by (simp add: tagged_def setcol_scalar_def map_of_setcol)
qed

lemma keys_addedI:
  assumes "resolve_column scorer df col dim_df name_col id_col id_col = Inr df'"
      and "map_of df col = map_of before col"
      and "map_of after id_col = map_of df' id_col"
  shows "keys_added scorer dim_df name_col id_col before col after"
  using assms by (auto simp: resolve_column_Inr_iff keys_added_def map_of_setcol)

section \<open>The example run\<close>

lemma example_dates:
  "iso_date ''2024-01-01'' = Some 1704067200000000000"
  "iso_date ''2024-01-02'' = Some 1704153600000000000"
  "iso_date ''2024-01-03'' = Some 1704240000000000000"
  "iso_date ''soon'' = None"
  "date_range (Ts 1704153600000000000) (Ts 1704240000000000000)
     = Inr [1704153600000000000, 1704240000000000000]"
  "int_of_text (strftime_Ymd 1704153600000000000) = 20240102"
  "int_of_text (strftime_Ymd 1704240000000000000) = 20240103"
  "year_of 1704153600000000000 = 2024" "year_of 1704240000000000000 = 2024"
  "month_of 1704153600000000000 = 1" "month_of 1704240000000000000 = 1"
  "day_of 1704153600000000000 = 2" "day_of 1704240000000000000 = 3"
  "week_of 1704153600000000000 = 1" "week_of 1704240000000000000 = 1"
  "quarter_of 1704153600000000000 = 1" "quarter_of 1704240000000000000 = 1"
  by code_simp+

lemma example_scores:
  "token_set_ratio ''FC Alpha'' ''FC Alpha'' = 100"
  "token_set_ratio ''Ann Lee'' ''Ann Lee'' = 100"
  "token_set_ratio ''Lee Ann'' ''Ann Lee'' = 100"
  "token_set_ratio ''Alpha FC'' ''FC Alpha'' = 100"
  "token_set_ratio ''A. Lee'' ''Ann Lee'' = 1000 / 13"
  "token_set_ratio ''A. Lee'' ''Lee Ann'' = 1000 / 13"
  "token_set_ratio ''A. Lee'' ''A. Lee'' = 100"
  "token_set_ratio ''Alpha'' ''FC Alpha'' = 100"
  "token_set_ratio ''Cup'' ''Cup'' = 100"
  by code_simp+

lemma example_run:
  "transform_data iso_date remdups token_set_ratio example_inputs =
     Inr (example_outputs, example_inputs_after)"
  by (simp add: example_inputs_def example_outputs_def example_inputs_after_def
        example_dates example_scores pipeline_defs
        del: date_range.simps cong: bindE_weak_cong)

section \<open>The claims about the transform\<close>

subsection \<open>C6: canonical tables have distinct names and the keys 1 to N\<close>

text \<open>
  Claim C6. After every run that returns, the team, the player and the competition
  dimension each have pairwise distinct names and as many keys, which are distinct
  integers and exactly the integers from 1 to the number of rows. The iteration order of
  the Python set is any function that lists each element once.
\<close>

theorem dimension_keys_dense:
  assumes "transform_data parse set_order scorer inp = Inr (out, inp')"
      and "\<And>xs. distinct (set_order xs)"
  shows "dense_keys (dim_team out) ''team_name_std'' ''team_id'' \<and>
         dense_keys (dim_player out) ''player_name_std'' ''player_id'' \<and>
         dense_keys (dim_competition out) ''competition'' ''competition_id''"
proof -
  from transform_data_steps[OF assms(1)] obtain a b c d e f g where
    "dim_team out = make_dim set_order a b c ''team_name_std'' ''team_id''"
    "dim_player out = make_dim set_order d e f ''player_name_std'' ''player_id''"
    "dim_competition out = make_dim_competition g"
    by blast
  then show ?thesis
    using assms(2) by (simp add: dense_keys_make_dim dense_keys_make_dim_competition)
qed


theorem dimension_keys_dense_witness:
  "dense_keys (dim_team example_outputs) ''team_name_std'' ''team_id'' \<and>
   dense_keys (dim_player example_outputs) ''player_name_std'' ''player_id'' \<and>
   dense_keys (dim_competition example_outputs) ''competition'' ''competition_id'' \<and>
   dim_player example_outputs =
     [(''player_name_std'', [Str ''Ann Lee'', Str ''Lee Ann'', Str ''A. Lee'']),
      (''player_id'', [Num 1, Num 2, Num 3])]"
  using dimension_keys_dense[OF example_run] by (simp add: example_outputs_def)


subsection \<open>C7: dimensions are deduplicated by exact equality only\<close>

text \<open>
  Claim C7 as stated fails for the names of every source table: the team names of the
  match table are resolved against the team dimension, but not collected into it. In the
  example run the match table names the team Alpha, which has no canonical row.
\<close>

theorem match_table_teams_not_collected:
  "transform_data iso_date remdups token_set_ratio example_inputs =
     Inr (example_outputs, example_inputs_after) \<and>
   Str ''Alpha'' \<in> observed (wyscout_matches example_inputs) ''team_name'' \<and>
   Str ''Alpha'' \<notin> set (col_or_na (dim_team example_outputs) ''team_name_std'')"
  by (simp add: example_run)
     (simp add: example_inputs_def example_outputs_def observed_def col_or_na_def)

text \<open>
  Claim C7, amended. After every run that returns, the names of the team dimension are
  exactly the values observed in the team name columns of the two GPS tables and the two
  Wyscout player tables (not of the match table), each once; likewise the player
  dimension (columns \<^verbatim>\<open>name\<close> and \<^verbatim>\<open>player\<close> of these tables) and the competition
  dimension (the match table's column). So among the collected names equal ones
  collapse to one row, and different ones, however similar, stay different rows.
\<close>

theorem dimension_names_exact:
  assumes "transform_data parse set_order scorer inp = Inr (out, inp')"
      and "\<And>xs. distinct (set_order xs)"
      and "\<And>xs. set (set_order xs) = set xs"
  shows "set (col_or_na (dim_team out) ''team_name_std'') =
           observed (gps_match inp) ''team_name'' \<union> observed (gps_training inp) ''team_name'' \<union>
           observed (wyscout_outfield inp) ''team_name'' \<union> observed (wyscout_goalkeeper inp) ''team_name'' \<and>
         distinct (col_or_na (dim_team out) ''team_name_std'') \<and>
         set (col_or_na (dim_player out) ''player_name_std'') =
           observed (gps_match inp) ''name'' \<union> observed (gps_training inp) ''name'' \<union>
           observed (wyscout_outfield inp) ''player'' \<union> observed (wyscout_goalkeeper inp) ''player'' \<and>
         distinct (col_or_na (dim_player out) ''player_name_std'') \<and>
         set (col_or_na (dim_competition out) ''competition'') =
           observed (wyscout_matches inp) ''competition'' \<and>
         distinct (col_or_na (dim_competition out) ''competition'')"
proof -
  from transform_data_steps[OF assms(1)] obtain gps0 matches0 outfield0 goalkeeper0
      gps_team outfield_team goalkeeper_team gps_name outfield_player goalkeeper_player competition
    where s:
      "coerce_date parse (concat_frames
          (setcol_scalar (gps_match inp) ''session_type'' (Str ''match''))
          (setcol_scalar (gps_training inp) ''session_type'' (Str ''training''))) = Inr gps0"
      "coerce_date parse (wyscout_matches inp) = Inr matches0"
      "coerce_date parse (wyscout_outfield inp) = Inr outfield0"
      "coerce_date parse (wyscout_goalkeeper inp) = Inr goalkeeper0"
      "getcol gps0 ''team_name'' = Inr gps_team"
      "getcol outfield0 ''team_name'' = Inr outfield_team"
      "getcol goalkeeper0 ''team_name'' = Inr goalkeeper_team"
      "dim_team out = make_dim set_order gps_team outfield_team goalkeeper_team
                           ''team_name_std'' ''team_id''"
      "getcol gps0 ''name'' = Inr gps_name"
      "getcol outfield0 ''player'' = Inr outfield_player"
      "getcol goalkeeper0 ''player'' = Inr goalkeeper_player"
      "dim_player out = make_dim set_order gps_name outfield_player goalkeeper_player
                             ''player_name_std'' ''player_id''"
      "getcol matches0 ''competition'' = Inr competition"
      "dim_competition out = make_dim_competition competition"
    by blast
  have gps: "set x - {NA} = observed (gps_match inp) c \<union> observed (gps_training inp) c"
    if "getcol gps0 c = Inr x" "c \<noteq> ''date''" "c \<noteq> ''session_type''" for c x
  proof -
    have "getcol (concat_frames
          (setcol_scalar (gps_match inp) ''session_type'' (Str ''match''))
          (setcol_scalar (gps_training inp) ''session_type'' (Str ''training''))) c = Inr x"
      using s(1) that by (auto simp: coerce_date_Inr getcol_setcol_other)
    from observed_concat_frames[OF this] show ?thesis
      using that by (simp add: setcol_scalar_def observed_setcol)
  qed
  have other: "set x - {NA} = observed df c"
    if "coerce_date parse df = Inr df0" "getcol df0 c = Inr x" "c \<noteq> ''date''" for df df0 c x
    using that by (auto simp: coerce_date_Inr getcol_setcol_other observed_getcol)
  have t: "set gps_team - {NA} = observed (gps_match inp) ''team_name'' \<union> observed (gps_training inp) ''team_name''"
    using s(5) by (intro gps) auto
  have p: "set gps_name - {NA} = observed (gps_match inp) ''name'' \<union> observed (gps_training inp) ''name''"
    using s(9) by (intro gps) auto
  have o: "set outfield_team - {NA} = observed (wyscout_outfield inp) ''team_name''"
      "set goalkeeper_team - {NA} = observed (wyscout_goalkeeper inp) ''team_name''"
      "set outfield_player - {NA} = observed (wyscout_outfield inp) ''player''"
      "set goalkeeper_player - {NA} = observed (wyscout_goalkeeper inp) ''player''"
      "set competition - {NA} = observed (wyscout_matches inp) ''competition''"
    using other[OF s(3,6)] other[OF s(4,7)] other[OF s(3,10)] other[OF s(4,11)] other[OF s(2,13)]
    by simp_all
  show ?thesis
    unfolding s(8,12,14)
    using assms(2,3) t p o
    by (simp add: names_make_dim names_make_dim_competition Un_Diff Un_assoc)
qed

theorem dimension_names_exact_witness:
  "set (col_or_na (dim_team example_outputs) ''team_name_std'') =
     observed (gps_match example_inputs) ''team_name'' \<union>
     observed (gps_training example_inputs) ''team_name'' \<union>
     observed (wyscout_outfield example_inputs) ''team_name'' \<union>
     observed (wyscout_goalkeeper example_inputs) ''team_name'' \<and>
   distinct (col_or_na (dim_team example_outputs) ''team_name_std'') \<and>
   col_or_na (dim_team example_outputs) ''team_name_std'' = [Str ''FC Alpha'', Str ''Alpha FC'']"
  using dimension_names_exact[OF example_run]
  by (simp add: example_outputs_def col_or_na_def)


subsection \<open>C5: the date dimension\<close>

text \<open>
  Claim C5 as stated fails: the range is not taken over all fact sources. In the example
  run the outfield table has a date one day before every GPS and match date; the date
  dimension has two rows, where the range over all three fact tables has three days.
\<close>

theorem date_range_over_all_sources_fails:
  "transform_data iso_date remdups token_set_ratio example_inputs =
     Inr (example_outputs, example_inputs_after) \<and>
   length (col_or_na (dim_date example_outputs) ''date'') = 2 \<and>
   spec_date_rows example_outputs = 3"
proof -
  have "spec_date_rows example_outputs = 3"
    by (simp add: spec_date_rows_def example_outputs_def col_or_na_def timestamps_def day_ns_def)
  then show ?thesis
    by (simp add: example_run) (simp add: example_outputs_def col_or_na_def)
qed


text \<open>
  Claim C5, amended. After every run that returns, the GPS fact table has a parsed date,
  and with \<open>date_min\<close> and \<open>date_max\<close> the smallest and the largest parsed date of the GPS
  fact table and the match table, the date dimension has \<open>(date_max - date_min).days + 1\<close>
  rows; row \<open>k\<close> holds \<open>date_min\<close> plus \<open>k\<close> days, and its key is that date written as the
  eight digits YYYYMMDD and read as an integer.
\<close>

theorem date_dimension_rows:
  assumes "transform_data parse set_order scorer inp = Inr (out, inp')"
  shows "(let gd = timestamps (col_or_na (fact_player_gps out) ''date'');
              ds = gd @ timestamps (col_or_na (fact_wyscout_match out) ''date'');
              date_min = Min (set ds);
              date_max = Max (set ds);
              dates = col_or_na (dim_date out) ''date'';
              keys = col_or_na (dim_date out) ''date_key''
          in gd \<noteq> [] \<and>
             length dates = nat ((date_max - date_min) div day_ns) + 1 \<and>
             length keys = length dates \<and>
             (\<forall>k<length dates.
                let t = date_min + int k * day_ns
                in dates ! k = Ts t \<and>
                   keys ! k = Num (int_of_text (strftime_Ymd t)) \<and>
                   length (strftime_Ymd t) = 8 \<and>
                   int_of_text (strftime_Ymd t) = year_of t * 10000 + month_of t * 100 + day_of t \<and>
                   1 \<le> month_of t \<and> month_of t \<le> 12 \<and> 1 \<le> day_of t \<and> day_of t \<le> 31))"
proof -
  from transform_data_steps[OF assms(1)] obtain gps0 matches0 gps_dates match_dates
      gps1 gps2 matches1 matches2
    where s:
      "coerce_date parse (concat_frames
          (setcol_scalar (gps_match inp) ''session_type'' (Str ''match''))
          (setcol_scalar (gps_training inp) ''session_type'' (Str ''training''))) = Inr gps0"
      "coerce_date parse (wyscout_matches inp) = Inr matches0"
      "getcol gps0 ''date'' = Inr gps_dates"
      "getcol matches0 ''date'' = Inr match_dates"
      "make_dim_date gps_dates match_dates = Inr (dim_date out)"
      "resolve_column scorer gps0 ''team_name'' (dim_team out)
            ''team_name_std'' ''team_id'' ''team_id'' = Inr gps1"
      "resolve_column scorer gps1 ''name'' (dim_player out)
            ''player_name_std'' ''player_id'' ''player_id'' = Inr gps2"
      "resolve_column scorer matches0 ''team_name'' (dim_team out)
            ''team_name_std'' ''team_id'' ''team_id'' = Inr matches1"
      "resolve_column scorer matches1 ''competition'' (dim_competition out)
            ''competition'' ''competition_id'' ''competition_id'' = Inr matches2"
      "fact_player_gps out = gps2"
      "fact_wyscout_match out = matches2"
    by blast
  have g: "col_or_na (fact_player_gps out) ''date'' = gps_dates"
    using s(3) getcol_resolve_column(1)[OF s(6), of "''date''"] getcol_resolve_column(1)[OF s(7), of "''date''"]
    by (simp add: s(10) col_or_na_getcol)
  have m: "col_or_na (fact_wyscout_match out) ''date'' = match_dates"
    using s(4) getcol_resolve_column(1)[OF s(8), of "''date''"] getcol_resolve_column(1)[OF s(9), of "''date''"]
    by (simp add: s(11) col_or_na_getcol)
  define ds where "ds = timestamps gps_dates @ timestamps match_dates"
  define a where "a = Min (set ds)"
  define b where "b = Max (set ds)"
  define n where "n = nat ((b - a) div day_ns) + 1"
  note d = make_dim_date_Inr[OF s(5), folded ds_def, folded a_def b_def, folded n_def]
  obtain s1 where "gps_dates = to_datetime parse s1"
    using s(1,3) by (auto simp: coerce_date_Inr getcol_eq_Inr map_of_setcol)
  moreover obtain s2 where "match_dates = to_datetime parse s2"
    using s(2,4) by (auto simp: coerce_date_Inr getcol_eq_Inr map_of_setcol)
  ultimately have bounds: "\<forall>t\<in>set ds. in_bounds t"
    using timestamps_to_datetime by (auto simp: ds_def)
  have ne: "ds \<noteq> []" using d(1) by (simp add: ds_def)
  have "a \<in> set ds" "b \<in> set ds" unfolding a_def b_def using ne by (simp_all del: set_append)
  then have ab: "in_bounds a" "in_bounds b" using bounds by blast+
  have "a \<le> b" using \<open>a \<in> set ds\<close> unfolding b_def by (simp del: set_append)
  then have q: "0 \<le> (b - a) div day_ns" by (simp add: day_ns_def pos_imp_zdiv_nonneg_iff)
  have row: "in_bounds (a + int k * day_ns)" if "k < n" for k
  proof -
    have "int k \<le> (b - a) div day_ns" using that q unfolding n_def by linarith
    then have "int k * day_ns \<le> (b - a) div day_ns * day_ns"
      by (intro mult_right_mono) (simp_all add: day_ns_def)
    also have "\<dots> \<le> b - a" by (simp add: day_ns_def)
    finally have "a + int k * day_ns \<le> b" by simp
    moreover have "a \<le> a + int k * day_ns" by (simp add: day_ns_def)
    ultimately show ?thesis using ab by (simp add: in_bounds_def)
  qed
  show ?thesis
    unfolding g m Let_def
    unfolding ds_def[symmetric] a_def[symmetric] b_def[symmetric] n_def[symmetric] d(2,3)
    using d(1) strftime_Ymd_number[OF row]
    by (auto simp del: upt_Suc)
qed


theorem date_dimension_rows_witness:
  "col_or_na (dim_date example_outputs) ''date'' = [Ts 1704153600000000000, Ts 1704240000000000000] \<and>
   col_or_na (dim_date example_outputs) ''date_key'' = [Num 20240102, Num 20240103] \<and>
   (let gd = timestamps (col_or_na (fact_player_gps example_outputs) ''date'');
        ds = gd @ timestamps (col_or_na (fact_wyscout_match example_outputs) ''date'');
        date_min = Min (set ds);
        date_max = Max (set ds)
    in gd \<noteq> [] \<and> date_min = 1704153600000000000 \<and> date_max = 1704240000000000000 \<and>
       length (col_or_na (dim_date example_outputs) ''date'') = nat ((date_max - date_min) div day_ns) + 1)"
  using date_dimension_rows[OF example_run]
  by (simp add: example_outputs_def col_or_na_def timestamps_def Let_def)


subsection \<open>C9: the argument tables\<close>

text \<open>
  Claim C9 as stated fails: the transform assigns to columns of its arguments. In the
  example run the GPS match table gains the column \<^verbatim>\<open>session_type\<close>, and the match table
  has its dates replaced by timestamps and gains \<^verbatim>\<open>team_id\<close>.
\<close>

theorem inputs_are_mutated:
  "transform_data iso_date remdups token_set_ratio example_inputs =
     Inr (example_outputs, example_inputs_after) \<and>
   example_inputs_after \<noteq> example_inputs \<and>
   map_of (gps_match example_inputs) ''session_type'' = None \<and>
   map_of (gps_match example_inputs_after) ''session_type'' = Some [Str ''match''] \<and>
   map_of (wyscout_matches example_inputs) ''date'' = Some [Str ''2024-01-03'', Str ''2024-01-03''] \<and>
   map_of (wyscout_matches example_inputs_after) ''date''
     = Some [Ts 1704240000000000000, Ts 1704240000000000000] \<and>
   map_of (wyscout_matches example_inputs) ''team_id'' = None \<and>
   map_of (wyscout_matches example_inputs_after) ''team_id'' = Some [Num 1, Num 1]"
  by (simp add: example_run) (simp add: example_inputs_def example_inputs_after_def)


text \<open>
  Claim C9, amended. After every run that returns, the two GPS tables differ from the
  arguments by the column \<^verbatim>\<open>session_type\<close> alone, which holds the tag in every row. The
  outfield and the goalkeeper table have \<^verbatim>\<open>date\<close> replaced by the parsed dates, hold
  the resolved keys in \<^verbatim>\<open>team_id\<close> and \<^verbatim>\<open>player_id\<close> and the tag in \<^verbatim>\<open>player_type\<close>; the
  match table has \<^verbatim>\<open>date\<close> replaced, holds the resolved keys in \<^verbatim>\<open>team_id\<close> and
  \<^verbatim>\<open>competition_id\<close>, and is the returned match fact table. Every other column of
  these tables is unchanged.
\<close>

theorem inputs_changed_in_place:
  assumes "transform_data parse set_order scorer inp = Inr (out, inp')"
  shows "gps_match inp' = setcol_scalar (gps_match inp) ''session_type'' (Str ''match'') \<and>
         gps_training inp' = setcol_scalar (gps_training inp) ''session_type'' (Str ''training'') \<and>
         fact_wyscout_match out = wyscout_matches inp' \<and>
         date_parsed parse (wyscout_outfield inp) (wyscout_outfield inp') \<and>
         keys_added scorer (dim_team out) ''team_name_std'' ''team_id''
           (wyscout_outfield inp) ''team_name'' (wyscout_outfield inp') \<and>
         keys_added scorer (dim_player out) ''player_name_std'' ''player_id''
           (wyscout_outfield inp) ''player'' (wyscout_outfield inp') \<and>
         tagged (wyscout_outfield inp') ''player_type'' (Str ''outfield'') \<and>
         date_parsed parse (wyscout_goalkeeper inp) (wyscout_goalkeeper inp') \<and>
         keys_added scorer (dim_team out) ''team_name_std'' ''team_id''
           (wyscout_goalkeeper inp) ''team_name'' (wyscout_goalkeeper inp') \<and>
         keys_added scorer (dim_player out) ''player_name_std'' ''player_id''
           (wyscout_goalkeeper inp) ''player'' (wyscout_goalkeeper inp') \<and>
         tagged (wyscout_goalkeeper inp') ''player_type'' (Str ''goalkeeper'') \<and>
         date_parsed parse (wyscout_matches inp) (wyscout_matches inp') \<and>
         keys_added scorer (dim_team out) ''team_name_std'' ''team_id''
           (wyscout_matches inp) ''team_name'' (wyscout_matches inp') \<and>
         keys_added scorer (dim_competition out) ''competition'' ''competition_id''
           (wyscout_matches inp) ''competition'' (wyscout_matches inp') \<and>
         (\<forall>c. c \<notin> {''date'', ''team_id'', ''player_id'', ''player_type''} \<longrightarrow>
              map_of (wyscout_outfield inp') c = map_of (wyscout_outfield inp) c \<and>
              map_of (wyscout_goalkeeper inp') c = map_of (wyscout_goalkeeper inp) c) \<and>
         (\<forall>c. c \<notin> {''date'', ''team_id'', ''competition_id''} \<longrightarrow>
              map_of (wyscout_matches inp') c = map_of (wyscout_matches inp) c)"
proof -
  from transform_data_steps[OF assms(1)] obtain matches0 outfield0 goalkeeper0
      outfield1 goalkeeper1 outfield2 goalkeeper2 matches1 matches2
    where s:
      "coerce_date parse (wyscout_matches inp) = Inr matches0"
      "coerce_date parse (wyscout_outfield inp) = Inr outfield0"
      "coerce_date parse (wyscout_goalkeeper inp) = Inr goalkeeper0"
      "resolve_column scorer outfield0 ''team_name'' (dim_team out)
            ''team_name_std'' ''team_id'' ''team_id'' = Inr outfield1"
      "resolve_column scorer goalkeeper0 ''team_name'' (dim_team out)
            ''team_name_std'' ''team_id'' ''team_id'' = Inr goalkeeper1"
      "resolve_column scorer outfield1 ''player'' (dim_player out)
            ''player_name_std'' ''player_id'' ''player_id'' = Inr outfield2"
      "resolve_column scorer goalkeeper1 ''player'' (dim_player out)
            ''player_name_std'' ''player_id'' ''player_id'' = Inr goalkeeper2"
      "resolve_column scorer matches0 ''team_name'' (dim_team out)
            ''team_name_std'' ''team_id'' ''team_id'' = Inr matches1"
      "resolve_column scorer matches1 ''competition'' (dim_competition out)
            ''competition'' ''competition_id'' ''competition_id'' = Inr matches2"
      "fact_wyscout_match out = matches2"
      "gps_match inp' = setcol_scalar (gps_match inp) ''session_type'' (Str ''match'')"
      "gps_training inp' = setcol_scalar (gps_training inp) ''session_type'' (Str ''training'')"
      "wyscout_outfield inp' = setcol_scalar outfield2 ''player_type'' (Str ''outfield'')"
      "wyscout_goalkeeper inp' = setcol_scalar goalkeeper2 ''player_type'' (Str ''goalkeeper'')"
      "wyscout_matches inp' = matches2"
    by blast
  have c0: "map_of df0 c = map_of df c" if "coerce_date parse df = Inr df0" "c \<noteq> ''date''" for df df0 c
    using that by (auto simp: coerce_date_Inr map_of_setcol)
  have d0: "date_parsed parse df after"
    if "coerce_date parse df = Inr df0" "map_of after ''date'' = map_of df0 ''date''" for df df0 after
    using that by (auto simp: coerce_date_Inr map_of_setcol date_parsed_def)
  note r = getcol_resolve_column(2)
  have sc: "map_of (setcol_scalar df c v) c' = map_of df c'" if "c' \<noteq> c" for df c v c'
    using that by (simp add: setcol_scalar_def map_of_setcol)
  have ne: "outfield2 \<noteq> []" "goalkeeper2 \<noteq> []"
    using s(6,7) by (auto simp: resolve_column_Inr_iff setcol_not_Nil)
  have o: "map_of (wyscout_outfield inp') c = map_of (wyscout_outfield inp) c"
    if "c \<notin> {''date'', ''team_id'', ''player_id'', ''player_type''}" for c
    using that c0[OF s(2), of c] r[OF s(4), of c] r[OF s(6), of c] by (simp add: s(13) sc)
  have k: "map_of (wyscout_goalkeeper inp') c = map_of (wyscout_goalkeeper inp) c"
    if "c \<notin> {''date'', ''team_id'', ''player_id'', ''player_type''}" for c
    using that c0[OF s(3), of c] r[OF s(5), of c] r[OF s(7), of c] by (simp add: s(14) sc)
  have w: "map_of (wyscout_matches inp') c = map_of (wyscout_matches inp) c"
    if "c \<notin> {''date'', ''team_id'', ''competition_id''}" for c
    using that c0[OF s(1), of c] r[OF s(8), of c] r[OF s(9), of c] by (simp add: s(15))
  have od: "date_parsed parse (wyscout_outfield inp) (wyscout_outfield inp')"
    using r[OF s(4), of "''date''"] r[OF s(6), of "''date''"]
    by (intro d0[OF s(2)]) (simp add: s(13) sc)
  have kd: "date_parsed parse (wyscout_goalkeeper inp) (wyscout_goalkeeper inp')"
    using r[OF s(5), of "''date''"] r[OF s(7), of "''date''"]
    by (intro d0[OF s(3)]) (simp add: s(14) sc)
  have wd: "date_parsed parse (wyscout_matches inp) (wyscout_matches inp')"
    using r[OF s(8), of "''date''"] r[OF s(9), of "''date''"]
    by (intro d0[OF s(1)]) (simp add: s(15))
  have ot: "keys_added scorer (dim_team out) ''team_name_std'' ''team_id''
           (wyscout_outfield inp) ''team_name'' (wyscout_outfield inp')"
    using c0[OF s(2), of "''team_name''"] r[OF s(6), of "''team_id''"]
    by (intro keys_addedI[OF s(4)]) (simp_all add: s(13) sc)
  have op: "keys_added scorer (dim_player out) ''player_name_std'' ''player_id''
           (wyscout_outfield inp) ''player'' (wyscout_outfield inp')"
    using c0[OF s(2), of "''player''"] r[OF s(4), of "''player''"]
    by (intro keys_addedI[OF s(6)]) (simp_all add: s(13) sc)
  have kt: "keys_added scorer (dim_team out) ''team_name_std'' ''team_id''
           (wyscout_goalkeeper inp) ''team_name'' (wyscout_goalkeeper inp')"
    using c0[OF s(3), of "''team_name''"] r[OF s(7), of "''team_id''"]
    by (intro keys_addedI[OF s(5)]) (simp_all add: s(14) sc)
  have kp: "keys_added scorer (dim_player out) ''player_name_std'' ''player_id''
           (wyscout_goalkeeper inp) ''player'' (wyscout_goalkeeper inp')"
    using c0[OF s(3), of "''player''"] r[OF s(5), of "''player''"]
    by (intro keys_addedI[OF s(7)]) (simp_all add: s(14) sc)
  have wt: "keys_added scorer (dim_team out) ''team_name_std'' ''team_id''
           (wyscout_matches inp) ''team_name'' (wyscout_matches inp')"
    using c0[OF s(1), of "''team_name''"] r[OF s(9), of "''team_id''"]
    by (intro keys_addedI[OF s(8)]) (simp_all add: s(15))
  have wc: "keys_added scorer (dim_competition out) ''competition'' ''competition_id''
           (wyscout_matches inp) ''competition'' (wyscout_matches inp')"
    using c0[OF s(1), of "''competition''"] r[OF s(8), of "''competition''"]
    by (intro keys_addedI[OF s(9)]) (simp_all add: s(15))
  have tg: "tagged (wyscout_outfield inp') ''player_type'' (Str ''outfield'')"
      "tagged (wyscout_goalkeeper inp') ''player_type'' (Str ''goalkeeper'')"
    unfolding s(13,14) using ne by (simp_all add: tagged_setcol_scalar)
  show ?thesis
    using s(10,11,12,15) o k w od kd wd ot op kt kp wt wc tg by simp
qed

theorem inputs_changed_in_place_witness:
  "gps_match example_inputs_after =
     setcol_scalar (gps_match example_inputs) ''session_type'' (Str ''match'') \<and>
   fact_wyscout_match example_outputs = wyscout_matches example_inputs_after \<and>
   date_parsed iso_date (wyscout_matches example_inputs) (wyscout_matches example_inputs_after) \<and>
   keys_added token_set_ratio (dim_team example_outputs) ''team_name_std'' ''team_id''
     (wyscout_outfield example_inputs) ''team_name'' (wyscout_outfield example_inputs_after) \<and>
   tagged (wyscout_outfield example_inputs_after) ''player_type'' (Str ''outfield'') \<and>
   map_of (wyscout_outfield example_inputs_after) ''team_id'' = Some [Num 1] \<and>
   map_of (wyscout_outfield example_inputs_after) ''player'' =
     map_of (wyscout_outfield example_inputs) ''player'' \<and>
   map_of (wyscout_matches example_inputs_after) ''competition'' =
     map_of (wyscout_matches example_inputs) ''competition''"
proof -
  have m: "map_of (wyscout_outfield example_inputs_after) ''team_id'' = Some [Num 1]"
    by (simp add: example_inputs_after_def)
  show ?thesis
    using inputs_changed_in_place[OF example_run] m by simp
qed

subsection \<open>C4: a date that does not parse\<close>

text \<open>
  Claim C4 fails on the code for the match table: a missing date formats to NaN, which
  \<^verbatim>\<open>astype(int)\<close> cannot convert, so the run ends in a ValueError. (The example run shows
  the same date in a GPS table do no harm.)
\<close>

theorem unparseable_match_date_aborts:
  "transform_data iso_date remdups token_set_ratio bad_match_date_example = Inl ValueError"
  by (simp add: bad_match_date_example_def example_inputs_def
        example_dates example_scores pipeline_defs
        del: date_range.simps cong: bindE_weak_cong)

end
